theory Spec2Isabelle
  imports Complex_Main
begin

section \<open>Mid-body detection factory of cut\_detector\<close>

text \<open>
  The development embeds \<^verbatim>\<open>MidBodyDetectionFactory\<close>
  (\<^verbatim>\<open>src/cut_detector/factories/mid_body_detection_factory.py\<close>): the dispatch of
  the spot detection strategies, the two link costs, the padded cost matrix, the choice of
  the linking backend, the selection of the best track and the write-back onto the mitosis
  record.
\<close>

subsection \<open>Python exceptions\<close>

datatype error =
    ValueError string
  | KeyError string
  | RuntimeError string
  | AttributeError string
  | TypeError
  | IndexError
  | ZeroDivisionError

subsection \<open>Floating-point values\<close>

text \<open>
  A numpy float is a finite value, one of the two infinities, or NaN. Finite values are
  modelled as exact reals: rounding, overflow to infinity and the sign of zero are left out.
  The operations below follow IEEE 754 on the special values, as numpy does (a division by
  zero gives an infinity or NaN and no exception).
\<close>

datatype fl = Fin real | PInf | NInf | NaN

fun fneg :: "fl \<Rightarrow> fl" where
  "fneg (Fin a) = Fin (- a)"
| "fneg PInf = NInf"
| "fneg NInf = PInf"
| "fneg NaN = NaN"

fun fabs :: "fl \<Rightarrow> fl" where
  "fabs (Fin a) = Fin \<bar>a\<bar>"
| "fabs PInf = PInf"
| "fabs NInf = PInf"
| "fabs NaN = NaN"

fun fadd :: "fl \<Rightarrow> fl \<Rightarrow> fl" where
  "fadd (Fin a) (Fin b) = Fin (a + b)"
| "fadd NaN _ = NaN"
| "fadd _ NaN = NaN"
| "fadd PInf NInf = NaN"
| "fadd NInf PInf = NaN"
| "fadd PInf _ = PInf"
| "fadd _ PInf = PInf"
| "fadd NInf _ = NInf"
| "fadd _ NInf = NInf"

definition fsub :: "fl \<Rightarrow> fl \<Rightarrow> fl" where
  "fsub a b = fadd a (fneg b)"

text \<open>The product of an infinity with a finite value: NaN at zero, else the sign decides.\<close>

definition inf_times :: "bool \<Rightarrow> real \<Rightarrow> fl" where
  "inf_times positive b =
     (if b = 0 then NaN else if (0 < b) = positive then PInf else NInf)"

fun fmul :: "fl \<Rightarrow> fl \<Rightarrow> fl" where
  "fmul (Fin a) (Fin b) = Fin (a * b)"
| "fmul NaN _ = NaN"
| "fmul _ NaN = NaN"
| "fmul PInf (Fin b) = inf_times True b"
| "fmul NInf (Fin b) = inf_times False b"
| "fmul (Fin a) PInf = inf_times True a"
| "fmul (Fin a) NInf = inf_times False a"
| "fmul PInf PInf = PInf"
| "fmul NInf NInf = PInf"
| "fmul PInf NInf = NInf"
| "fmul NInf PInf = NInf"

fun fdiv :: "fl \<Rightarrow> fl \<Rightarrow> fl" where
  "fdiv (Fin a) (Fin b) =
     (if b = 0 then (if a = 0 then NaN else if 0 < a then PInf else NInf)
      else Fin (a / b))"
| "fdiv NaN _ = NaN"
| "fdiv _ NaN = NaN"
| "fdiv (Fin a) PInf = Fin 0"
| "fdiv (Fin a) NInf = Fin 0"
| "fdiv PInf (Fin b) = (if 0 \<le> b then PInf else NInf)"
| "fdiv NInf (Fin b) = (if 0 \<le> b then NInf else PInf)"
| "fdiv PInf PInf = NaN"
| "fdiv PInf NInf = NaN"
| "fdiv NInf PInf = NaN"
| "fdiv NInf NInf = NaN"

text \<open>\<^verbatim>\<open>x ** n\<close> for a natural exponent; \<^verbatim>\<open>x ** 0\<close> is 1 also for NaN.\<close>

fun fpow :: "fl \<Rightarrow> nat \<Rightarrow> fl" where
  "fpow a 0 = Fin 1"
| "fpow a (Suc n) = fmul a (fpow a n)"

fun fsqrt :: "fl \<Rightarrow> fl" where
  "fsqrt (Fin a) = (if a < 0 then NaN else Fin (sqrt a))"
| "fsqrt PInf = PInf"
| "fsqrt NInf = NaN"
| "fsqrt NaN = NaN"

text \<open>\<^verbatim>\<open>a < b\<close>: every comparison with NaN is false.\<close>

fun flt :: "fl \<Rightarrow> fl \<Rightarrow> bool" where
  "flt (Fin a) (Fin b) = (a < b)"
| "flt NaN _ = False"
| "flt _ NaN = False"
| "flt _ NInf = False"
| "flt PInf _ = False"
| "flt NInf _ = True"
| "flt _ PInf = True"

definition fgt :: "fl \<Rightarrow> fl \<Rightarrow> bool" where
  "fgt a b = flt b a"

fun isnan :: "fl \<Rightarrow> bool" where
  "isnan NaN = True"
| "isnan _ = False"

text \<open>Python's built-in \<^verbatim>\<open>max(a, b)\<close>: \<^verbatim>\<open>b\<close> only when \<^verbatim>\<open>b > a\<close>.\<close>

definition py_max :: "fl \<Rightarrow> fl \<Rightarrow> fl" where
  "py_max a b = (if fgt b a then b else a)"

text \<open>\<^verbatim>\<open>int(v)\<close> of a finite float: truncation towards zero.\<close>

definition py_int :: "real \<Rightarrow> int" where
  "py_int v = (if 0 \<le> v then \<lfloor>v\<rfloor> else \<lceil>v\<rceil>)"

subsection \<open>The factory and its parameters\<close>

record config =
  weight_mklp_intensity_factor :: real
  weight_sir_intensity_factor :: real
  mid_body_linking_max_distance :: real
  h_maxima_threshold :: real
  sigma :: real
  threshold :: real
  cytokinesis_duration :: int
  minimum_mid_body_track_length :: int

text \<open>
  The defaults of \<^verbatim>\<open>__init__\<close>. The constant \<^verbatim>\<open>CYTOKINESIS_DURATION\<close> of
  \<^verbatim>\<open>constants/tracking.py\<close> is the argument.
\<close>

definition default_config :: "int \<Rightarrow> config" where
  "default_config CYTOKINESIS_DURATION =
     \<lparr> weight_mklp_intensity_factor = 5,
       weight_sir_intensity_factor = 3 / 2,
       mid_body_linking_max_distance = 175,
       h_maxima_threshold = 5,
       sigma = 2,
       threshold = 1,
       cytokinesis_duration = CYTOKINESIS_DURATION,
       minimum_mid_body_track_length = 10 \<rparr>"

subsection \<open>Choice of the linking backend\<close>

datatype backend = LapTrack | SpatialLapTrack

text \<open>
  The keyword arguments the two constructors receive in \<^verbatim>\<open>_gen_laptrack_tracking\<close>.
  Both get \<^verbatim>\<open>dist_metric\<close> as the metric of linking and of gap closing;
  \<^verbatim>\<open>SpatialLapTrack\<close> gets two constants more (\<^verbatim>\<open>spatial_coord_slice\<close>,
  \<^verbatim>\<open>spatial_metric\<close>). Neither is a field here.
\<close>

record linker =
  backend_of :: backend
  track_cost_cutoff :: real
  gap_closing_cost_cutoff :: real
  gap_closing_max_frame_count :: nat
  splitting_cost_cutoff :: bool
  merging_cost_cutoff :: bool
  alternative_cost_percentile :: real

definition make_linker :: "config \<Rightarrow> string \<Rightarrow> error + linker" where
  "make_linker cfg tracking_method =
     (let max_distance = mid_body_linking_max_distance cfg in
      if tracking_method = ''laptrack'' then
        Inr \<lparr> backend_of = LapTrack,
              track_cost_cutoff = max_distance ^ 2,
              gap_closing_cost_cutoff = max_distance ^ 2,
              gap_closing_max_frame_count = 2,
              splitting_cost_cutoff = False,
              merging_cost_cutoff = False,
              alternative_cost_percentile = 1 / 100 \<rparr>
      else if tracking_method = ''spatial_laptrack'' then
        Inr \<lparr> backend_of = SpatialLapTrack,
              track_cost_cutoff = max_distance,
              gap_closing_cost_cutoff = max_distance,
              gap_closing_max_frame_count = 3,
              splitting_cost_cutoff = False,
              merging_cost_cutoff = False,
              alternative_cost_percentile = 100 \<rparr>
      else Inl (RuntimeError (''Invalid tracking method '' @ [CHR 0x27] @ tracking_method
                                @ [CHR 0x27])))"

text \<open>
  \<^verbatim>\<open>generate_tracks_from_spots\<close> and \<^verbatim>\<open>update_mid_body_spots\<close> both declare
  \<^verbatim>\<open>tracking_method = "laptrack"\<close>; \<open>None\<close> is a call that leaves the argument out.
  The linker that \<^verbatim>\<open>_gen_laptrack_tracking\<close> then runs is the one built for the name,
  unless \<^verbatim>\<open>use_custom_laptrack\<close> gives another.
\<close>

definition default_tracking_method :: string where
  "default_tracking_method = ''laptrack''"

definition generate_tracks_linker ::
  "config \<Rightarrow> string option \<Rightarrow> linker option \<Rightarrow> error + linker" where
  "generate_tracks_linker cfg tracking_method use_custom_laptrack =
     (case make_linker cfg
             (case tracking_method of None \<Rightarrow> default_tracking_method | Some m \<Rightarrow> m) of
        Inl e \<Rightarrow> Inl e
      | Inr lt \<Rightarrow>
          (case use_custom_laptrack of None \<Rightarrow> Inr lt | Some custom \<Rightarrow> Inr custom))"

subsection \<open>Spots\<close>

text \<open>
  The fields of \<^verbatim>\<open>MidBodySpot\<close> that the factory sets and reads (\<^verbatim>\<open>frame\<close>,
  \<^verbatim>\<open>x\<close>, \<^verbatim>\<open>y\<close>, \<^verbatim>\<open>intensity\<close>, \<^verbatim>\<open>sir_intensity\<close>); the two intensities are
  Python integers, the result of \<^verbatim>\<open>_get_average_intensity\<close>.
\<close>

record mid_body_spot =
  spot_frame :: int
  spot_x :: int
  spot_y :: int
  intensity :: int
  sir_intensity :: int

subsection \<open>Spot detection\<close>

text \<open>
  A blob is a tuple (or array row) of numbers, \<^verbatim>\<open>(y, x)\<close> or \<^verbatim>\<open>(y, x, sigma)\<close>. A
  detection mode is a callable from the marker channel to blobs, or a name.
\<close>

type_synonym blob = "real list"

datatype 'img mode = Callable "'img \<Rightarrow> blob list" | Name string

text \<open>
  What \<^verbatim>\<open>_spot_detection\<close> calls and the repository's sources do not hold: the blob
  detectors of \<^verbatim>\<open>mb_support.detection\<close>, the numerics of the \<^verbatim>\<open>bigfish\<close> and
  \<^verbatim>\<open>h_maxima\<close> branches (they end in an integer array of \<^verbatim>\<open>(y, x)\<close> rows), and the
  mean over the crop of \<^verbatim>\<open>_get_average_intensity\<close>. In the \<^verbatim>\<open>bigfish\<close> branch the name
  \<^verbatim>\<open>detection\<close> is the module \<^verbatim>\<open>mb_support.detection\<close>, whose import replaces the one
  of the \<^verbatim>\<open>bigfish\<close> package, so \<^verbatim>\<open>detection.spots_thresholding\<close> is looked up in a
  module that is not among the sources: the branch may end in an exception.
\<close>

record 'img detection =
  current_log :: "'img \<Rightarrow> blob list"
  current_dog :: "'img \<Rightarrow> blob list"
  current_doh :: "'img \<Rightarrow> blob list"
  lapgau :: "'img \<Rightarrow> blob list"
  log2_wider :: "'img \<Rightarrow> blob list"
  rshift_log :: "'img \<Rightarrow> blob list"
  diffgau :: "'img \<Rightarrow> blob list"
  hessian :: "'img \<Rightarrow> blob list"
  bigfish_spots :: "config \<Rightarrow> 'img \<Rightarrow> 'img \<Rightarrow> error + (int \<times> int) list"
  h_maxima_spots :: "config \<Rightarrow> 'img \<Rightarrow> (int \<times> int) list"
  get_average_intensity :: "int \<times> int \<Rightarrow> 'img \<Rightarrow> int"

text \<open>An instance for concrete runs: a one-pixel image type and detectors that find nothing.\<close>

definition blind_detection :: "unit detection" where
  "blind_detection =
     \<lparr> current_log = (\<lambda>i. []), current_dog = (\<lambda>i. []), current_doh = (\<lambda>i. []),
       lapgau = (\<lambda>i. []), log2_wider = (\<lambda>i. []), rshift_log = (\<lambda>i. []),
       diffgau = (\<lambda>i. []), hessian = (\<lambda>i. []),
       bigfish_spots = (\<lambda>c i m. Inr []), h_maxima_spots = (\<lambda>c i. []),
       get_average_intensity = (\<lambda>p i. 0) \<rparr>"

text \<open>\<^verbatim>\<open>t[i]\<close> on a tuple.\<close>

definition tuple_get :: "'a list \<Rightarrow> nat \<Rightarrow> error + 'a" where
  "tuple_get t i = (if i < length t then Inr (t ! i) else Inl IndexError)"

text \<open>
  \<^verbatim>\<open>int(v, base)\<close> with a number as first argument. Python first checks the base, which
  must be 0 or lie between 2 and 36, and raises \<^verbatim>\<open>ValueError\<close> otherwise; then it
  accepts an explicit base only for a string, bytes or bytearray, and raises
  \<^verbatim>\<open>TypeError\<close> for a number.
\<close>

definition valid_base :: "int \<Rightarrow> bool" where
  "valid_base base = (base = 0 \<or> (2 \<le> base \<and> base \<le> 36))"

definition py_int_base :: "real \<Rightarrow> int \<Rightarrow> error + int" where
  "py_int_base v base =
     (if valid_base base then Inl TypeError
      else Inl (ValueError ''int() base must be >= 2 and <= 36, or 0''))"

text \<open>
  The element of the comprehension, \<^verbatim>\<open>(int(spot[0]), int(spot[1], int(spot[2])))\<close>:
  a pair whose second component is the two-argument \<^verbatim>\<open>int\<close>.
\<close>

definition blob_to_pair :: "blob \<Rightarrow> error + (int \<times> int)" where
  "blob_to_pair spot =
     (case tuple_get spot 0 of Inl e \<Rightarrow> Inl e | Inr v0 \<Rightarrow>
     (case tuple_get spot 1 of Inl e \<Rightarrow> Inl e | Inr v1 \<Rightarrow>
     (case tuple_get spot 2 of Inl e \<Rightarrow> Inl e | Inr v2 \<Rightarrow>
     (case py_int_base v1 (py_int v2) of Inl e \<Rightarrow> Inl e | Inr b \<Rightarrow> Inr (py_int v0, b)))))"

text \<open>A list comprehension whose element may raise: the first exception ends it.\<close>

fun map_result :: "('a \<Rightarrow> error + 'b) \<Rightarrow> 'a list \<Rightarrow> error + 'b list" where
  "map_result f [] = Inr []"
| "map_result f (a # as) =
     (case f a of Inl e \<Rightarrow> Inl e | Inr b \<Rightarrow>
     (case map_result f as of Inl e \<Rightarrow> Inl e | Inr bs \<Rightarrow> Inr (b # bs)))"

text \<open>
  The logging loop prints \<^verbatim>\<open>s[1]\<close>, \<^verbatim>\<open>s[0]\<close> and \<^verbatim>\<open>s[2]\<close> of every converted
  spot; the converted spots are pairs, so \<^verbatim>\<open>s[2]\<close> is out of range.
\<close>

definition log_blob_spots :: "bool \<Rightarrow> (int \<times> int) list \<Rightarrow> error + unit" where
  "log_blob_spots log_blob_spot spots =
     (if log_blob_spot \<and> spots \<noteq> [] then Inl IndexError else Inr ())"

definition blob_spots :: "bool \<Rightarrow> blob list \<Rightarrow> error + (int \<times> int) list" where
  "blob_spots log_blob_spot blobs =
     (case map_result blob_to_pair blobs of Inl e \<Rightarrow> Inl e | Inr spots \<Rightarrow>
     (case log_blob_spots log_blob_spot spots of Inl e \<Rightarrow> Inl e | Inr u \<Rightarrow> Inr spots))"

text \<open>
  The list of the \<^verbatim>\<open>elif mode in [...]\<close> test. Two commas are missing in the source, and
  Python joins adjacent string literals: \<^verbatim>\<open>"diffgau" "cur_doh"\<close> is one element.
\<close>

definition blob_mode_names :: "string list" where
  "blob_mode_names =
     [''cur_log'', ''lapgau'', ''log2_wider'', ''shifted_centered_log'',
      ''cur_dog'', ''diffgau'' @ ''cur_doh'', ''hessian'']"

text \<open>The dictionary \<^verbatim>\<open>mapping\<close> from names to detectors.\<close>

definition mapping :: "'img detection \<Rightarrow> (string \<times> ('img \<Rightarrow> blob list)) list" where
  "mapping det =
     [(''cur_log'', current_log det),
      (''cur_dog'', current_dog det),
      (''cur_doh'', current_doh det),
      (''lapgau'', lapgau det),
      (''log2_wider'', log2_wider det),
      (''rshit_log'', rshift_log det),
      (''diffgau'', diffgau det),
      (''hessian'', hessian det)]"

text \<open>The final comprehension: a position \<^verbatim>\<open>(y, x)\<close> becomes a spot with \<^verbatim>\<open>x\<close> and \<^verbatim>\<open>y\<close> swapped.\<close>

definition to_mid_body_spot ::
  "'img detection \<Rightarrow> int \<Rightarrow> 'img \<Rightarrow> 'img \<Rightarrow> int \<times> int \<Rightarrow> mid_body_spot" where
  "to_mid_body_spot det frame image_mklp image_sir position =
     \<lparr> spot_frame = frame,
       spot_x = snd position,
       spot_y = fst position,
       intensity = get_average_intensity det position image_mklp,
       sir_intensity = get_average_intensity det position image_sir \<rparr>"

text \<open>
  \<^verbatim>\<open>_spot_detection\<close>. The image is read by channel
  (\<^verbatim>\<open>image[:, :, channel]\<close>); the result is the list of spots or the exception raised.
\<close>

definition spot_detection ::
  "'img detection \<Rightarrow> config \<Rightarrow> (int \<Rightarrow> 'img) \<Rightarrow> 'img \<Rightarrow> int \<Rightarrow> int \<Rightarrow> 'img mode \<Rightarrow> int \<Rightarrow> bool
     \<Rightarrow> error + mid_body_spot list" where
  "spot_detection det cfg img msk mid_body_channel sir_channel mode frame log_blob_spot =
     (let image_sir = img sir_channel;
          image_mklp = img mid_body_channel;
          spots =
            (case mode of
               Callable f \<Rightarrow> blob_spots log_blob_spot (f image_mklp)
             | Name m \<Rightarrow>
                 if m \<in> set blob_mode_names then
                   (case map_of (mapping det) m of
                      None \<Rightarrow> Inl (KeyError m)
                    | Some f \<Rightarrow> blob_spots log_blob_spot (f image_mklp))
                 else if m = ''bigfish'' then bigfish_spots det cfg image_mklp msk
                 else if m = ''h_maxima'' then Inr (h_maxima_spots det cfg image_mklp)
                 else Inl (ValueError (''Unknown mode: '' @ m)))
      in case spots of
           Inl e \<Rightarrow> Inl e
         | Inr ps \<Rightarrow> Inr (map (to_mid_body_spot det frame image_mklp image_sir) ps))"

subsection \<open>Tracks and the mitosis record\<close>

text \<open>
  \<^verbatim>\<open>MidBodyTrack.spots\<close> is a dictionary from the relative frame to the spot; it is kept
  as the list of its items in insertion order, which is what \<^verbatim>\<open>list(track.spots.keys())\<close>
  reads. The keys of a dictionary are distinct.
\<close>

record mid_body_track =
  track_id :: int
  spots :: "(int \<times> mid_body_spot) list"

text \<open>
  Modelled from the spec: the attribute \<^verbatim>\<open>length\<close> of \<^verbatim>\<open>MidBodyTrack\<close>
  (\<^verbatim>\<open>utils/mid_body_track.py\<close> is not among the sources); a track's length is the count
  of frames with an assigned spot.
\<close>

definition track_length :: "mid_body_track \<Rightarrow> int" where
  "track_length track = int (length (spots track))"

text \<open>
  The fields of \<^verbatim>\<open>MitosisTrack\<close> that the factory uses; every other field of the class
  lives in the extension part of the record.
\<close>

record mitosis_track =
  min_frame :: int
  key_events_frame :: "string \<rightharpoonup> int"
  mid_body_spots :: "int \<rightharpoonup> mid_body_spot"

subsection \<open>Selection of the best track\<close>

text \<open>The length filter of \<^verbatim>\<open>_select_best_track\<close>.\<close>

definition length_filter :: "config \<Rightarrow> mid_body_track list \<Rightarrow> mid_body_track list" where
  "length_filter cfg mid_body_tracks =
     filter (\<lambda>track. track_length track > minimum_mid_body_track_length cfg) mid_body_tracks"

text \<open>
  One round of the loop over \<^verbatim>\<open>range(abs_min_frame, abs_max_frame + 1)\<close>. The test
  \<^verbatim>\<open>frame not in abs_track_frames\<close> and the lookup
  \<^verbatim>\<open>track.spots[frame - mitosis_track.min_frame]\<close> are one lookup here: the frame is among
  the absolute frames exactly when the relative frame is a key. The movie is read through
  \<open>image_sir t y x\<close>, the pixel \<^verbatim>\<open>image_sir[t, y, x]\<close>.
\<close>

definition sir_step ::
  "'a mitosis_track_scheme \<Rightarrow> (int \<Rightarrow> int \<Rightarrow> int \<Rightarrow> real) \<Rightarrow> mid_body_track \<Rightarrow> int
     \<Rightarrow> nat \<times> fl \<Rightarrow> nat \<times> fl" where
  "sir_step mt image_sir track frame st =
     (case map_of (spots track) (frame - min_frame mt) of
        None \<Rightarrow> st
      | Some track_spot \<Rightarrow>
          (fst st + 1,
           fadd (snd st)
             (Fin (image_sir (frame - min_frame mt) (spot_y track_spot) (spot_x track_spot)))))"

text \<open>
  The body of the loop over the tracks: the entry of \<^verbatim>\<open>sir_intensity_track\<close> for one
  track, or the exception raised on the way.
\<close>

definition sir_intensity_of_track ::
  "config \<Rightarrow> 'a mitosis_track_scheme \<Rightarrow> (int \<Rightarrow> int \<Rightarrow> int \<Rightarrow> real) \<Rightarrow> mid_body_track
     \<Rightarrow> error + fl" where
  "sir_intensity_of_track cfg mt image_sir track =
     (let abs_track_frames = map (\<lambda>kv. fst kv + min_frame mt) (spots track) in
      case key_events_frame mt ''cytokinesis'' of
        None \<Rightarrow> Inl (KeyError ''cytokinesis'')
      | Some abs_min_frame \<Rightarrow>
          (let abs_max_frame =
                 abs_min_frame + py_int (real_of_int (cytokinesis_duration cfg) / 2)
           in if abs_track_frames = [] then Inl IndexError
              else
                (let start =
                       (if abs_min_frame > last abs_track_frames
                           \<or> abs_max_frame < hd abs_track_frames
                        then NInf else Fin 0);
                     st = fold (sir_step mt image_sir track)
                            [abs_min_frame..abs_max_frame] (0, start);
                     frame_count = fst st
                 in if real frame_count < real_of_int (abs_max_frame - abs_min_frame + 1) / 2
                    then Inr NInf
                    else if frame_count = 0 then Inl ZeroDivisionError
                    else Inr (fdiv (snd st) (Fin (real frame_count))))))"

text \<open>\<^verbatim>\<open>xs.index(x)\<close> for an element of the list.\<close>

fun index_of :: "'a list \<Rightarrow> 'a \<Rightarrow> nat" where
  "index_of [] x = 0"
| "index_of (y # ys) x = (if y = x then 0 else Suc (index_of ys x))"

definition func_sir_intensity ::
  "fl list \<Rightarrow> fl list \<Rightarrow> mid_body_track list \<Rightarrow> mid_body_track \<Rightarrow> fl" where
  "func_sir_intensity expected_distances sir_intensity_track mid_body_tracks track =
     (let a = expected_distances ! index_of mid_body_tracks track;
          b = sir_intensity_track ! index_of mid_body_tracks track
      in fsub a (fmul (Fin (1 / 2)) b))"

text \<open>
  \<^verbatim>\<open>sorted(xs, key=k)\<close>: a stable sort that compares keys with \<^verbatim>\<open><\<close>. It is written
  as the insertion of each element behind the elements that are not greater; on keys that
  \<^verbatim>\<open><\<close> orders totally (no NaN) every stable sort returns this list.
\<close>

fun insert_by_key :: "('a \<Rightarrow> fl) \<Rightarrow> 'a \<Rightarrow> 'a list \<Rightarrow> 'a list" where
  "insert_by_key k a [] = [a]"
| "insert_by_key k a (b # bs) =
     (if flt (k a) (k b) then a # b # bs else b # insert_by_key k a bs)"

definition sorted_by_key :: "('a \<Rightarrow> fl) \<Rightarrow> 'a list \<Rightarrow> 'a list" where
  "sorted_by_key k xs = foldl (\<lambda>acc a. insert_by_key k a acc) [] xs"

text \<open>
  \<^verbatim>\<open>_select_best_track\<close> from the length filter on. The expected positions of the mid-body
  (computed before the filter from the mother and daughter tracks) enter the selection only
  through \<^verbatim>\<open>track.get_expected_distance(expected_positions, max_distance)\<close>, a method of
  \<^verbatim>\<open>MidBodyTrack\<close>: the argument \<open>get_expected_distance\<close> is that call.
\<close>

definition select_best_track ::
  "config \<Rightarrow> 'a mitosis_track_scheme \<Rightarrow> (mid_body_track \<Rightarrow> fl) \<Rightarrow> (int \<Rightarrow> int \<Rightarrow> int \<Rightarrow> real)
     \<Rightarrow> mid_body_track list \<Rightarrow> error + mid_body_track option" where
  "select_best_track cfg mt get_expected_distance image_sir all_tracks =
     (let mid_body_tracks = length_filter cfg all_tracks in
      case map_result (sir_intensity_of_track cfg mt image_sir) mid_body_tracks of
        Inl e \<Rightarrow> Inl e
      | Inr sir_intensity_track \<Rightarrow>
          (let expected_distances = map get_expected_distance mid_body_tracks;
               key = func_sir_intensity expected_distances sir_intensity_track mid_body_tracks;
               final_tracks = filter (\<lambda>track. key track \<noteq> PInf) mid_body_tracks;
               sorted_tracks = sorted_by_key key final_tracks
           in Inr (case sorted_tracks of [] \<Rightarrow> None | best # rest \<Rightarrow> Some best)))"

subsection \<open>Writing the selected track onto the mitosis record\<close>

text \<open>The last lines of \<^verbatim>\<open>update_mid_body_spots\<close>: nothing without a kept track, else one
  assignment \<^verbatim>\<open>mitosis_track.mid_body_spots[frame] = spot\<close> for every item of the track.\<close>

definition keep_spots ::
  "'a mitosis_track_scheme \<Rightarrow> mid_body_track option \<Rightarrow> 'a mitosis_track_scheme" where
  "keep_spots mt kept_track =
     (case kept_track of
        None \<Rightarrow> mt
      | Some track \<Rightarrow>
          fold (\<lambda>item m. m\<lparr> mid_body_spots := (mid_body_spots m)(fst item + min_frame m \<mapsto> snd item) \<rparr>)
            (spots track) mt)"

text \<open>
  \<^verbatim>\<open>update_mid_body_spots\<close> from the call of \<^verbatim>\<open>_select_best_track\<close> on;
  \<open>mid_body_tracks\<close> is what \<^verbatim>\<open>generate_tracks_from_spots\<close> returned. An exception
  leaves the record as it was.
\<close>

definition update_mid_body_spots ::
  "config \<Rightarrow> 'a mitosis_track_scheme \<Rightarrow> (mid_body_track \<Rightarrow> fl) \<Rightarrow> (int \<Rightarrow> int \<Rightarrow> int \<Rightarrow> real)
     \<Rightarrow> mid_body_track list \<Rightarrow> error + 'a mitosis_track_scheme" where
  "update_mid_body_spots cfg mt get_expected_distance image_sir mid_body_tracks =
     (case select_best_track cfg mt get_expected_distance image_sir mid_body_tracks of
        Inl e \<Rightarrow> Inl e
      | Inr kept_track \<Rightarrow> Inr (keep_spots mt kept_track))"

subsection \<open>Link costs\<close>

text \<open>
  Modelled from the spec: the method \<^verbatim>\<open>distance_to\<close> of \<^verbatim>\<open>MidBodySpot\<close>
  (\<^verbatim>\<open>utils/mid_body_spot.py\<close> is not among the sources); the spatial term is the
  Euclidean distance between the positions.
\<close>

definition distance_to :: "mid_body_spot \<Rightarrow> mid_body_spot \<Rightarrow> real" where
  "distance_to spot1 spot2 =
     sqrt (real_of_int ((spot_x spot1 - spot_x spot2)\<^sup>2 + (spot_y spot1 - spot_y spot2)\<^sup>2))"

text \<open>
  \<^verbatim>\<open>3 * w * np.abs(a - b) / (a + b)\<close>, the expression of both intensity penalties in both
  code paths.
\<close>

definition intensity_term :: "real \<Rightarrow> fl \<Rightarrow> fl \<Rightarrow> fl" where
  "intensity_term w a b = fdiv (fmul (Fin (3 * w)) (fabs (fsub a b))) (fadd a b)"

text \<open>
  The value that \<^verbatim>\<open>_update_spots_hereditary\<close> stores at \<^verbatim>\<open>cost_matrix[i, j]\<close> for a
  pair of spots; the power has the exponent \<^verbatim>\<open>1\<close> in the source.
\<close>

definition link_cost :: "config \<Rightarrow> mid_body_spot \<Rightarrow> mid_body_spot \<Rightarrow> fl" where
  "link_cost cfg spot1 spot2 =
     (let intensity_penalty =
            intensity_term (weight_mklp_intensity_factor cfg)
              (Fin (real_of_int (intensity spot1))) (Fin (real_of_int (intensity spot2)));
          sir_intensity_penalty =
            intensity_term (weight_sir_intensity_factor cfg)
              (Fin (real_of_int (sir_intensity spot1))) (Fin (real_of_int (sir_intensity spot2)));
          penalty = fadd (fadd (Fin 1) intensity_penalty) sir_intensity_penalty;
          distance = distance_to spot1 spot2
      in if distance > mid_body_linking_max_distance cfg then PInf
         else fpow (fmul penalty (Fin distance)) 1)"

text \<open>
  A row of the data frame that \<^verbatim>\<open>_gen_laptrack_tracking\<close> hands to the linker, in the
  columns \<^verbatim>\<open>x\<close>, \<^verbatim>\<open>y\<close>, \<^verbatim>\<open>mlkp_intensity\<close>, \<^verbatim>\<open>sir_intensity\<close>; the row of a frame
  without spots holds NaN four times.
\<close>

type_synonym coords = "fl \<times> fl \<times> fl \<times> fl"

definition spot_coords :: "mid_body_spot \<Rightarrow> coords" where
  "spot_coords mb_spot =
     (Fin (real_of_int (spot_x mb_spot)), Fin (real_of_int (spot_y mb_spot)),
      Fin (real_of_int (intensity mb_spot)), Fin (real_of_int (sir_intensity mb_spot)))"

text \<open>\<^verbatim>\<open>scipy.spatial.distance.euclidean\<close> on two points of the plane.\<close>

definition euclidean :: "fl \<times> fl \<Rightarrow> fl \<times> fl \<Rightarrow> fl" where
  "euclidean u v =
     fsqrt (fadd (fpow (fsub (fst u) (fst v)) 2) (fpow (fsub (snd u) (snd v)) 2))"

text \<open>The closure \<^verbatim>\<open>dist_metric\<close> of \<^verbatim>\<open>_gen_laptrack_tracking\<close>.\<close>

definition dist_metric :: "config \<Rightarrow> coords \<Rightarrow> coords \<Rightarrow> fl" where
  "dist_metric cfg c1 c2 =
     (case c1 of (x1, y1, mlkp1, sir1) \<Rightarrow>
      case c2 of (x2, y2, mlkp2, sir2) \<Rightarrow>
        if isnan x1 \<or> isnan y1 \<or> isnan x2 \<or> isnan y2
        then Fin (mid_body_linking_max_distance cfg * 2)
        else
          (let spatial_e = euclidean (x1, y1) (x2, y2);
               mkpl_penalty = intensity_term (weight_mklp_intensity_factor cfg) mlkp1 mlkp2;
               sir_penalty = intensity_term (weight_sir_intensity_factor cfg) sir1 sir2;
               penalty = fadd (fadd (Fin 1) sir_penalty) mkpl_penalty
           in fpow (fmul spatial_e penalty) 2))"

subsection \<open>The padded cost matrix\<close>

text \<open>\<^verbatim>\<open>np.zeros((r, c))\<close>, a matrix as the list of its rows.\<close>

definition zeros :: "nat \<Rightarrow> nat \<Rightarrow> fl list list" where
  "zeros r c = replicate r (replicate c (Fin 0))"

text \<open>
  The inner loop over \<^verbatim>\<open>enumerate(spots2)\<close> on one row: it stores the cost of each pair
  and raises \<^verbatim>\<open>max_cost\<close> on the pairs within the maximum distance.
\<close>

fun fill_row ::
  "config \<Rightarrow> mid_body_spot \<Rightarrow> mid_body_spot list \<Rightarrow> nat \<Rightarrow> fl list \<times> fl \<Rightarrow> fl list \<times> fl" where
  "fill_row cfg spot1 [] j st = st"
| "fill_row cfg spot1 (spot2 # rest) j st =
     fill_row cfg spot1 rest (Suc j)
       ((fst st)[j := link_cost cfg spot1 spot2],
        if distance_to spot1 spot2 > mid_body_linking_max_distance cfg then snd st
        else py_max (snd st) (link_cost cfg spot1 spot2))"

text \<open>The outer loop over \<^verbatim>\<open>enumerate(spots1)\<close>.\<close>

fun fill_rows ::
  "config \<Rightarrow> mid_body_spot list \<Rightarrow> mid_body_spot list \<Rightarrow> nat \<Rightarrow> fl list list \<times> fl
     \<Rightarrow> fl list list \<times> fl" where
  "fill_rows cfg [] spots2 i st = st"
| "fill_rows cfg (spot1 # rest) spots2 i st =
     (let r = fill_row cfg spot1 spots2 0 (fst st ! i, snd st)
      in fill_rows cfg rest spots2 (Suc i) ((fst st)[i := fst r], snd r))"

text \<open>
  \<^verbatim>\<open>np.max\<close> and \<^verbatim>\<open>np.min\<close> of the entries of an array: NaN wins over every value, and
  an empty array is a \<^verbatim>\<open>ValueError\<close>.
\<close>

definition np_max2 :: "fl \<Rightarrow> fl \<Rightarrow> fl" where
  "np_max2 a b = (if isnan a \<or> isnan b then NaN else if flt a b then b else a)"

definition np_min2 :: "fl \<Rightarrow> fl \<Rightarrow> fl" where
  "np_min2 a b = (if isnan a \<or> isnan b then NaN else if flt b a then b else a)"

fun np_max :: "fl list \<Rightarrow> error + fl" where
  "np_max [] = Inl (ValueError ''zero-size array to reduction operation maximum'')"
| "np_max (a # as) = Inr (fold (\<lambda>b acc. np_max2 acc b) as a)"

fun np_min :: "fl list \<Rightarrow> error + fl" where
  "np_min [] = Inl (ValueError ''zero-size array to reduction operation minimum'')"
| "np_min (a # as) = Inr (fold (\<lambda>b acc. np_min2 acc b) as a)"

text \<open>The slice assignment \<^verbatim>\<open>m[r0:r1, c0:c1] = v\<close>.\<close>

definition set_block :: "fl list list \<Rightarrow> nat \<Rightarrow> nat \<Rightarrow> nat \<Rightarrow> nat \<Rightarrow> fl \<Rightarrow> fl list list" where
  "set_block m r0 r1 c0 c1 v =
     map (\<lambda>i. map (\<lambda>j. if r0 \<le> i \<and> i < r1 \<and> c0 \<le> j \<and> j < c1 then v else m ! i ! j)
                 [0..<length (m ! i)])
         [0..<length m]"

text \<open>
  \<^verbatim>\<open>_update_spots_hereditary\<close> up to the call of \<^verbatim>\<open>linear_sum_assignment\<close>: the cost
  matrix handed to the solver, or \<open>None\<close> when a list is empty and the function returns at
  once.
\<close>

definition update_spots_hereditary_matrix ::
  "config \<Rightarrow> mid_body_spot list \<Rightarrow> mid_body_spot list \<Rightarrow> error + fl list list option" where
  "update_spots_hereditary_matrix cfg spots1 spots2 =
     (if length spots1 = 0 \<or> length spots2 = 0 then Inr None
      else
        (let n1 = length spots1;
             n2 = length spots2;
             filled = fill_rows cfg spots1 spots2 0 (zeros (n1 + n2) (n1 + n2), Fin 0);
             cost_matrix = fst filled;
             max_cost = snd filled
         in case np_max (concat cost_matrix) of
              Inl e \<Rightarrow> Inl e
            | Inr largest \<Rightarrow>
               (case (if largest = Fin 0 then Inr (Fin 0)
                      else np_min (filter (\<lambda>v. v \<noteq> Fin 0) (concat cost_matrix))) of
                  Inl e \<Rightarrow> Inl e
                | Inr min_cost \<Rightarrow>
                    Inr (Some
                      (set_block
                        (set_block
                          (set_block cost_matrix n1 (n1 + n2) 0 n2 (fmul max_cost (Fin (105 / 100))))
                          0 n1 n2 (n1 + n2) (fmul max_cost (Fin (105 / 100))))
                        n1 (n1 + n2) n2 (n1 + n2) min_cost)))))"

subsection \<open>Notions of the specification\<close>

text \<open>The pairwise costs of two lists of spots, and the finite values among a list of costs.\<close>

definition pairwise_costs :: "config \<Rightarrow> mid_body_spot list \<Rightarrow> mid_body_spot list \<Rightarrow> fl list" where
  "pairwise_costs cfg spots1 spots2 =
     concat (map (\<lambda>spot1. map (link_cost cfg spot1) spots2) spots1)"

definition finite_costs :: "fl list \<Rightarrow> real list" where
  "finite_costs cs = concat (map (\<lambda>c. case c of Fin r \<Rightarrow> [r] | _ \<Rightarrow> []) cs)"

text \<open>The maximum finite cost, 0 when no cost is finite.\<close>

definition max_finite_cost :: "fl list \<Rightarrow> real" where
  "max_finite_cost cs = (if finite_costs cs = [] then 0 else Max (set (finite_costs cs)))"

text \<open>
  The minimum nonzero cost among costs that are \<open>+\<infinity>\<close> or not negative: the least
  positive finite one, \<open>+\<infinity>\<close> when the nonzero costs are all infinite, 0 when every
  cost is 0.
\<close>

definition min_nonzero_cost :: "fl list \<Rightarrow> fl" where
  "min_nonzero_cost cs =
     (let positive = filter (\<lambda>r. r \<noteq> 0) (finite_costs cs)
      in if positive \<noteq> [] then Fin (Min (set positive))
         else if PInf \<in> set cs then PInf
         else Fin 0)"

text \<open>The penalty factor, one plus the primary and the secondary intensity penalty.\<close>

definition link_penalty :: "config \<Rightarrow> mid_body_spot \<Rightarrow> mid_body_spot \<Rightarrow> fl" where
  "link_penalty cfg spot1 spot2 =
     fadd (fadd (Fin 1)
        (intensity_term (weight_mklp_intensity_factor cfg)
              (Fin (real_of_int (intensity spot1))) (Fin (real_of_int (intensity spot2)))))
        (intensity_term (weight_sir_intensity_factor cfg)
              (Fin (real_of_int (sir_intensity spot1))) (Fin (real_of_int (sir_intensity spot2))))"

text \<open>The cost formula of the specification: the square of distance times penalty.\<close>

definition squared_cost :: "config \<Rightarrow> mid_body_spot \<Rightarrow> mid_body_spot \<Rightarrow> fl" where
  "squared_cost cfg spot1 spot2 =
     fpow (fmul (Fin (distance_to spot1 spot2)) (link_penalty cfg spot1 spot2)) 2"

text \<open>
  The window of the intensity score: the frames from the recorded start of cytokinesis to
  half the cytokinesis duration afterwards.
\<close>

definition cytokinesis_window :: "config \<Rightarrow> int \<Rightarrow> int list" where
  "cytokinesis_window cfg cytokinesis_start =
     [cytokinesis_start .. cytokinesis_start + cytokinesis_duration cfg div 2]"

text \<open>
  The secondary-channel intensities at the spots of a track, over the frames of a window
  that carry a spot of the track.
\<close>

definition window_values ::
  "'a mitosis_track_scheme \<Rightarrow> (int \<Rightarrow> int \<Rightarrow> int \<Rightarrow> real) \<Rightarrow> mid_body_track \<Rightarrow> int list \<Rightarrow> real list" where
  "window_values mt image_sir track window =
     concat (map (\<lambda>frame. case map_of (spots track) (frame - min_frame mt) of
                            None \<Rightarrow> []
                          | Some s \<Rightarrow> [image_sir (frame - min_frame mt) (spot_y s) (spot_x s)])
                 window)"

text \<open>
  The intensity score of a track as a value, for the tracks on which it is computed
  without an exception.
\<close>

definition mean_sir_intensity ::
  "config \<Rightarrow> 'a mitosis_track_scheme \<Rightarrow> (int \<Rightarrow> int \<Rightarrow> int \<Rightarrow> real) \<Rightarrow> mid_body_track \<Rightarrow> fl" where
  "mean_sir_intensity cfg mt image_sir track =
     (case sir_intensity_of_track cfg mt image_sir track of Inl e \<Rightarrow> NaN | Inr v \<Rightarrow> v)"

text \<open>The score of the ranking: expected distance minus half the mean intensity.\<close>

definition track_score :: "(mid_body_track \<Rightarrow> fl) \<Rightarrow> (mid_body_track \<Rightarrow> fl) \<Rightarrow> mid_body_track \<Rightarrow> fl" where
  "track_score expected_distance mean_sir track =
     fsub (expected_distance track) (fmul (Fin (1 / 2)) (mean_sir track))"

subsection \<open>Auxiliary notions of the proofs\<close>

text \<open>The update of \<^verbatim>\<open>max_cost\<close> by one pair, and by one cost.\<close>

definition max_step :: "config \<Rightarrow> mid_body_spot \<Rightarrow> mid_body_spot \<Rightarrow> fl \<Rightarrow> fl" where
  "max_step cfg s1 s2 mc =
     (if distance_to s1 s2 > mid_body_linking_max_distance cfg then mc
      else py_max mc (link_cost cfg s1 s2))"

definition max_upd :: "fl \<Rightarrow> fl \<Rightarrow> fl" where
  "max_upd c mc = (if c = PInf then mc else py_max mc c)"

text \<open>A cost that is \<open>+\<infinity>\<close> or a number that is not negative.\<close>

definition cost_ok :: "fl \<Rightarrow> bool" where
  "cost_ok c = (case c of Fin r \<Rightarrow> 0 \<le> r | PInf \<Rightarrow> True | _ \<Rightarrow> False)"

subsection \<open>A small mitosis for concrete runs\<close>

text \<open>
  A factory with a cytokinesis duration of 2 frames and a minimum track length of 1, a
  mitosis that starts at frame 10 with cytokinesis at frame 10, tracks of two spots, one
  track of a single spot, and a movie whose pixel value is its column.
\<close>

definition example_config :: config where
  "example_config = (default_config 2)\<lparr> minimum_mid_body_track_length := 1 \<rparr>"

definition example_mitosis :: mitosis_track where
  "example_mitosis =
     \<lparr> min_frame = 10, key_events_frame = [''cytokinesis'' \<mapsto> 10], mid_body_spots = Map.empty \<rparr>"

definition example_spot :: "int \<Rightarrow> int \<Rightarrow> mid_body_spot" where
  "example_spot frame x =
     \<lparr> spot_frame = frame, spot_x = x, spot_y = 2, intensity = 5, sir_intensity = 7 \<rparr>"

definition example_track :: "int \<Rightarrow> int \<Rightarrow> int \<Rightarrow> mid_body_track" where
  "example_track tid first x =
     \<lparr> track_id = tid, spots = [(first, example_spot first x), (first + 1, example_spot (first + 1) x)] \<rparr>"

definition short_track :: mid_body_track where
  "short_track = \<lparr> track_id = 9, spots = [(0, example_spot 0 8)] \<rparr>"

definition example_sir :: "int \<Rightarrow> int \<Rightarrow> int \<Rightarrow> real" where
  "example_sir t y x = real_of_int x"

text \<open>A spot of the row \<open>y = 2\<close> with the given column and the given two intensities.\<close>

definition example_spot_with :: "int \<Rightarrow> int \<Rightarrow> int \<Rightarrow> mid_body_spot" where
  "example_spot_with x i s =
     \<lparr> spot_frame = 0, spot_x = x, spot_y = 2, intensity = i, sir_intensity = s \<rparr>"

lemmas ex_defs = example_config_def example_mitosis_def example_spot_def example_track_def
  short_track_def example_sir_def default_config_def

section \<open>Properties\<close>

subsection \<open>The default linking backend\<close>

text \<open>
  C3, as stated: with no linking-method name the Track Builder would build the
  spatially-aware backend. It does not: the factory with the default parameters, called
  without a name, builds the basic \<open>LapTrack\<close> backend.
\<close>

theorem default_linker_is_not_spatial:
  "map_sum id backend_of (generate_tracks_linker (default_config 20) None None) \<noteq> Inr SpatialLapTrack"
  by (simp add: generate_tracks_linker_def default_tracking_method_def make_linker_def Let_def)

text \<open>
  C3, amended: with no linking-method name the Track Builder builds the basic
  frame-adjacent \<open>LapTrack\<close> backend, exactly as for the name \<^verbatim>\<open>laptrack\<close>; and, no
  custom linker being given, it builds the spatially-aware backend when the name
  \<^verbatim>\<open>spatial_laptrack\<close> is given and only then.
\<close>

theorem default_linker_is_laptrack:
  "generate_tracks_linker cfg None custom = generate_tracks_linker cfg (Some ''laptrack'') custom
   \<and> map_sum id backend_of (generate_tracks_linker cfg None None) = Inr LapTrack
   \<and> (map_sum id backend_of (generate_tracks_linker cfg tracking_method None)
          = Inr SpatialLapTrack
        \<longleftrightarrow> tracking_method = Some ''spatial_laptrack'')"
  by (cases tracking_method)
     (simp_all add: generate_tracks_linker_def default_tracking_method_def make_linker_def Let_def)

subsection \<open>Spot detection\<close>

lemma blob_to_pair_error:
  "blob_to_pair b = Inl e \<Longrightarrow>
   e = IndexError \<or> e = TypeError \<or> e = ValueError ''int() base must be >= 2 and <= 36, or 0''"
  by (auto simp: blob_to_pair_def tuple_get_def py_int_base_def split: if_splits sum.splits)

lemma map_result_error: "map_result f as = Inl e \<Longrightarrow> \<exists>a\<in>set as. f a = Inl e"
  by (induction as) (auto split: sum.splits)

lemma blob_spots_error:
  "blob_spots lg bs = Inl e \<Longrightarrow>
   e = IndexError \<or> e = TypeError \<or> e = ValueError ''int() base must be >= 2 and <= 36, or 0''"
  using blob_to_pair_error map_result_error [of blob_to_pair bs e]
  by (auto simp: blob_spots_def log_blob_spots_def split: sum.splits if_splits)

lemma blob_spots_not_unknown_mode:
  "blob_spots lg bs \<noteq> Inl (ValueError (''Unknown mode: '' @ m))"
  using blob_spots_error [of lg bs "ValueError (''Unknown mode: '' @ m)"] by auto

text \<open>
  The modes that \<^verbatim>\<open>_spot_detection\<close> answers with the \<^verbatim>\<open>ValueError\<close> of an unknown mode,
  the \<^verbatim>\<open>bigfish\<close> branch aside, whose exceptions are those of its callees: the names
  outside the list of the membership test other than \<^verbatim>\<open>h_maxima\<close>.
\<close>

lemma unknown_mode_exactly:
  assumes "mode \<noteq> Name ''bigfish''"
  shows "(\<exists>u. spot_detection det cfg img msk mc sc mode frame lg
                = Inl (ValueError (''Unknown mode: '' @ u)))
   \<longleftrightarrow> (\<exists>m. mode = Name m \<and> m \<notin> set blob_mode_names \<and> m \<noteq> ''h_maxima'')"
proof (cases mode)
  case (Callable f)
  then show ?thesis
    using blob_spots_not_unknown_mode [of lg "f (img mc)"]
    by (auto simp: spot_detection_def Let_def split: sum.splits)
next
  case (Name m)
  show ?thesis
  proof (cases "m \<in> set blob_mode_names")
    case True
    then show ?thesis
      using Name blob_spots_not_unknown_mode [of lg]
      by (auto simp: spot_detection_def Let_def split: sum.splits option.splits)
  next
    case False
    then show ?thesis
      using Name assms by (auto simp: spot_detection_def Let_def split: sum.splits)
  qed
qed

text \<open>
  C2: the names \<^verbatim>\<open>diffgau\<close> and \<^verbatim>\<open>cur_doh\<close> are built-in strategies, yet
  \<^verbatim>\<open>_spot_detection\<close> answers both with the \<^verbatim>\<open>ValueError\<close> of an unknown mode,
  whatever the detectors and the image are; the name \<^verbatim>\<open>shifted_centered_log\<close> passes the
  membership test and then fails with a \<^verbatim>\<open>KeyError\<close>, for the dictionary has no such key.
\<close>

theorem builtin_names_rejected:
  "spot_detection det cfg img msk mc sc (Name ''diffgau'') frame lg
     = Inl (ValueError ''Unknown mode: diffgau'')
   \<and> spot_detection det cfg img msk mc sc (Name ''cur_doh'') frame lg
     = Inl (ValueError ''Unknown mode: cur_doh'')
   \<and> spot_detection det cfg img msk mc sc (Name ''shifted_centered_log'') frame lg
     = Inl (KeyError ''shifted_centered_log'')"
  by (simp add: spot_detection_def blob_mode_names_def mapping_def)

text \<open>
  C4: a callable strategy that returns at least one blob, the first blob a triple
  \<^verbatim>\<open>(y, x, scale)\<close>, makes \<^verbatim>\<open>_spot_detection\<close> raise an exception, so that no spot is
  produced: \<^verbatim>\<open>TypeError\<close> when the integer part of the scale is 0 or between 2 and 36,
  which Python takes for a base, and the \<^verbatim>\<open>ValueError\<close> of an invalid base otherwise.
\<close>

theorem callable_with_blob_raises:
  assumes "f (img mc) = b # bs" and "3 \<le> length b"
  shows "spot_detection det cfg img msk mc sc (Callable f) frame lg =
           Inl (if valid_base (py_int (b ! 2)) then TypeError
                else ValueError ''int() base must be >= 2 and <= 36, or 0'')"
  using assms
  by (auto simp add: spot_detection_def blob_spots_def blob_to_pair_def tuple_get_def
      py_int_base_def)

theorem callable_with_blob_raises_witness:
  "spot_detection blind_detection (default_config 20) (\<lambda>c. ()) () 1 0
     (Callable (\<lambda>i. [[3, 4, 2]])) 0 True = Inl TypeError"
  using callable_with_blob_raises [of "\<lambda>i. [[3, 4, 2]]" "\<lambda>c. ()" 1 "[3, 4, 2]" "[]"]
  by (simp add: valid_base_def py_int_def)

subsection \<open>The length filter\<close>

lemma set_insert_by_key: "set (insert_by_key k a bs) = insert a (set bs)"
  by (induction bs) auto

lemma set_foldl_insert_by_key:
  "set (foldl (\<lambda>acc a. insert_by_key k a acc) acc xs) = set acc \<union> set xs"
  by (induction xs arbitrary: acc) (auto simp: set_insert_by_key)

lemma set_sorted_by_key: "set (sorted_by_key k xs) = set xs"
  by (simp add: sorted_by_key_def set_foldl_insert_by_key)

lemma length_filter_idem: "length_filter cfg (length_filter cfg ts) = length_filter cfg ts"
  by (simp add: length_filter_def)

lemma select_best_track_member:
  assumes "select_best_track cfg mt ged image_sir ts = Inr (Some t)"
  shows "t \<in> set (length_filter cfg ts)"
proof -
  from assms obtain key rest where
    "sorted_by_key key (filter (\<lambda>track. key track \<noteq> PInf) (length_filter cfg ts)) = t # rest"
    by (auto simp: select_best_track_def Let_def split: sum.splits list.splits)
  then have "t \<in> set (sorted_by_key key (filter (\<lambda>track. key track \<noteq> PInf) (length_filter cfg ts)))"
    by simp
  then show ?thesis by (simp add: set_sorted_by_key)
qed


text \<open>
  C9: the Selector keeps exactly the tracks whose length is not \<open>\<le>\<close> the configured
  minimum, which is 10 by default; the filter comes before any scoring, so the selection on
  all the tracks is the selection on the kept ones, and a selected track is never a short one.
\<close>

theorem length_filter_exact:
  "(t \<in> set (length_filter cfg ts)
      \<longleftrightarrow> t \<in> set ts \<and> \<not> track_length t \<le> minimum_mid_body_track_length cfg)
   \<and> minimum_mid_body_track_length (default_config d) = 10
   \<and> select_best_track cfg mt ged image_sir ts
       = select_best_track cfg mt ged image_sir (length_filter cfg ts)
   \<and> (select_best_track cfg mt ged image_sir ts = Inr (Some t')
       \<longrightarrow> \<not> track_length t' \<le> minimum_mid_body_track_length cfg)"
proof -
  have a: "t \<in> set (length_filter cfg ts)
      \<longleftrightarrow> t \<in> set ts \<and> \<not> track_length t \<le> minimum_mid_body_track_length cfg"
    by (auto simp: length_filter_def)
  have b: "minimum_mid_body_track_length (default_config d) = 10"
    by (simp add: default_config_def)
  have c: "select_best_track cfg mt ged image_sir ts
       = select_best_track cfg mt ged image_sir (length_filter cfg ts)"
    by (simp add: select_best_track_def length_filter_idem)
  have d: "select_best_track cfg mt ged image_sir ts = Inr (Some t')
       \<longrightarrow> \<not> track_length t' \<le> minimum_mid_body_track_length cfg"
    using select_best_track_member [of cfg mt ged image_sir ts t']
    by (auto simp: length_filter_def)
  from a b c d show ?thesis by blast
qed


theorem length_filter_exact_witness:
  "example_track 1 0 1 \<in> set (length_filter example_config [example_track 1 0 1, short_track])
   \<and> short_track \<notin> set (length_filter example_config [example_track 1 0 1, short_track])
   \<and> select_best_track example_config example_mitosis (\<lambda>t. Fin 3) example_sir
        [example_track 1 0 1, short_track] = Inr (Some (example_track 1 0 1))
   \<and> track_length (example_track 1 0 1) = 2
   \<and> minimum_mid_body_track_length example_config = 1"
  using length_filter_exact [of "example_track 1 0 1" example_config
      "[example_track 1 0 1, short_track]" 2 example_mitosis "\<lambda>t. Fin 3" example_sir
      "example_track 1 0 1"]
    length_filter_exact [of short_track example_config
      "[example_track 1 0 1, short_track]" 2 example_mitosis "\<lambda>t. Fin 3" example_sir
      "example_track 1 0 1"]
  by (simp add: ex_defs select_best_track_def length_filter_def track_length_def
      sir_intensity_of_track_def Let_def py_int_def sir_step_def func_sir_intensity_def
      sorted_by_key_def fsub_def inf_times_def)

subsection \<open>The write-back\<close>

lemma keep_fold:
  "fold (\<lambda>item m. m\<lparr> mid_body_spots := (mid_body_spots m)(fst item + min_frame m \<mapsto> snd item) \<rparr>) items mt
   = mt\<lparr> mid_body_spots := fold (\<lambda>item m. m(fst item + min_frame mt \<mapsto> snd item)) items (mid_body_spots mt) \<rparr>"
  by (induction items arbitrary: mt) auto

lemma fold_upd_other:
  "k \<notin> (\<lambda>item. fst item + mf) ` set items \<Longrightarrow>
   fold (\<lambda>item m. m(fst item + mf \<mapsto> snd item)) items m k = m k"
  by (induction items arbitrary: m) auto

lemma fold_upd_written:
  "distinct (map fst items) \<Longrightarrow> (rf, s) \<in> set items \<Longrightarrow>
   fold (\<lambda>item m. m(fst item + (mf::int) \<mapsto> snd item)) items m (rf + mf) = Some s"
proof (induction items arbitrary: m)
  case Nil then show ?case by simp
next
  case (Cons a items)
  show ?case
  proof (cases "(rf, s) = a")
    case True
    then have "rf + mf \<notin> (\<lambda>item. fst item + mf) ` set items"
      using Cons.prems(1) by (auto simp: image_iff)
    then have "fold (\<lambda>item m. m(fst item + mf \<mapsto> snd item)) items (m(rf + mf \<mapsto> s)) (rf + mf)
                 = (m(rf + mf \<mapsto> s)) (rf + mf)"
      by (rule fold_upd_other)
    moreover have "a = (rf, s)" using True by simp
    ultimately show ?thesis by (simp del: fun_upd_apply) simp
  next
    case False
    then show ?thesis using Cons by auto
  qed
qed

text \<open>
  C10: when the Selector returns a track, \<^verbatim>\<open>update_mid_body_spots\<close> changes nothing of the
  mitosis record but its \<^verbatim>\<open>mid_body_spots\<close> mapping, leaves every key that is not a
  shifted frame of the track as it was, and (the frames of a track being distinct) maps the
  relative frame of each spot, plus the first frame of the mitosis, to that spot. When the
  Selector returns no track, the record is returned as it was.
\<close>

theorem update_mid_body_spots_effect:
  assumes "select_best_track cfg mt ged image_sir ts = Inr kept"
  shows "update_mid_body_spots cfg mt ged image_sir ts = Inr (keep_spots mt kept)
    \<and> (case kept of
         None \<Rightarrow> keep_spots mt kept = mt
       | Some track \<Rightarrow>
           (keep_spots mt kept)\<lparr> mid_body_spots := mid_body_spots mt \<rparr> = mt
           \<and> (\<forall>k. k \<notin> (\<lambda>item. fst item + min_frame mt) ` set (spots track)
                  \<longrightarrow> mid_body_spots (keep_spots mt kept) k = mid_body_spots mt k)
           \<and> (distinct (map fst (spots track))
                \<longrightarrow> (\<forall>item\<in>set (spots track).
                       mid_body_spots (keep_spots mt kept) (fst item + min_frame mt)
                         = Some (snd item))))"
proof -
  have upd: "update_mid_body_spots cfg mt ged image_sir ts = Inr (keep_spots mt kept)"
    using assms by (simp add: update_mid_body_spots_def)
  show ?thesis
  proof (cases kept)
    case None
    then show ?thesis using upd by (simp add: keep_spots_def)
  next
    case (Some track)
    have k: "keep_spots mt kept
        = mt\<lparr> mid_body_spots :=
               fold (\<lambda>item m. m(fst item + min_frame mt \<mapsto> snd item)) (spots track)
                 (mid_body_spots mt) \<rparr>"
      using Some by (simp add: keep_spots_def keep_fold)
    have a: "(keep_spots mt kept)\<lparr> mid_body_spots := mid_body_spots mt \<rparr> = mt"
      by (simp add: k)
    have b: "\<forall>k. k \<notin> (\<lambda>item. fst item + min_frame mt) ` set (spots track)
                  \<longrightarrow> mid_body_spots (keep_spots mt kept) k = mid_body_spots mt k"
      by (simp add: k fold_upd_other)
    have c: "distinct (map fst (spots track))
                \<longrightarrow> (\<forall>item\<in>set (spots track).
                       mid_body_spots (keep_spots mt kept) (fst item + min_frame mt)
                         = Some (snd item))"
      using fold_upd_written [of "spots track" _ _ "min_frame mt" "mid_body_spots mt"]
      by (auto simp: k)
    from upd a b c Some show ?thesis by simp
  qed
qed

theorem update_mid_body_spots_effect_witness:
  "update_mid_body_spots example_config example_mitosis (\<lambda>t. Fin 3) example_sir
     [example_track 1 0 1, short_track]
     = Inr (example_mitosis\<lparr> mid_body_spots :=
              [10 \<mapsto> example_spot 0 1, 11 \<mapsto> example_spot 1 1] \<rparr>)
   \<and> update_mid_body_spots example_config example_mitosis (\<lambda>t. Fin 3) example_sir [short_track]
     = Inr example_mitosis"
  using update_mid_body_spots_effect [of example_config example_mitosis "\<lambda>t. Fin 3" example_sir
      "[example_track 1 0 1, short_track]" "Some (example_track 1 0 1)"]
    update_mid_body_spots_effect [of example_config example_mitosis "\<lambda>t. Fin 3" example_sir
      "[short_track]" None]
  by (simp add: ex_defs select_best_track_def length_filter_def track_length_def
      sir_intensity_of_track_def Let_def py_int_def sir_step_def func_sir_intensity_def
      sorted_by_key_def fsub_def inf_times_def keep_spots_def)

subsection \<open>The intensity score of a track\<close>

lemma fold_sir_step_Fin:
  "fold (sir_step mt image_sir track) ws (c, Fin v)
   = (c + length (window_values mt image_sir track ws),
      Fin (v + sum_list (window_values mt image_sir track ws)))"
  by (induction ws arbitrary: c v)
     (auto simp: sir_step_def window_values_def split: option.splits)

lemma fold_sir_step_NInf:
  "fold (sir_step mt image_sir track) ws (c, NInf)
   = (c + length (window_values mt image_sir track ws), NInf)"
  by (induction ws arbitrary: c)
     (auto simp: sir_step_def window_values_def split: option.splits)

lemma sorted_between:
  "sorted xs \<Longrightarrow> (x::int) \<in> set xs \<Longrightarrow> hd xs \<le> x \<and> x \<le> last xs"
  by (induction xs) (auto)

lemma py_int_half: "0 \<le> d \<Longrightarrow> py_int (real_of_int d / 2) = d div 2"
  using floor_divide_of_int_eq [of d 2, where ?'a = real]
  by (simp add: py_int_def)

lemma window_values_outside:
  assumes "sorted (map fst items)" and "spots track = items"
    and "lo > last (map (\<lambda>kv. fst kv + min_frame mt) items) \<or> hi < hd (map (\<lambda>kv. fst kv + min_frame mt) items)"
    and "items \<noteq> []"
  shows "window_values mt image_sir track [lo..hi] = []"
proof -
  have "map_of items (f - min_frame mt) = None" if "f \<in> set [lo..hi]" for f
  proof (rule ccontr)
    assume "map_of items (f - min_frame mt) \<noteq> None"
    then have "f - min_frame mt \<in> set (map fst items)"
      by (metis map_of_eq_None_iff set_map)
    then have "hd (map fst items) \<le> f - min_frame mt \<and> f - min_frame mt \<le> last (map fst items)"
      using sorted_between assms(1) by blast
    moreover have "hd (map (\<lambda>kv. fst kv + min_frame mt) items) = hd (map fst items) + min_frame mt"
      using assms(4) by (simp add: hd_map)
    moreover have "last (map (\<lambda>kv. fst kv + min_frame mt) items) = last (map fst items) + min_frame mt"
      using assms(4) by (simp add: last_map)
    ultimately show False using assms(3) that by auto
  qed
  then show ?thesis
    by (simp add: window_values_def assms(2))
qed


text \<open>
  C8: for a track with at least one spot whose frames are in increasing order, in a mitosis
  with a recorded start of cytokinesis and a cytokinesis duration that is not negative, the
  intensity score is computed without an exception; it is \<open>-\<infinity>\<close> when fewer than half of
  the frames of the window carry a spot of the track, and else the mean of the
  secondary-channel intensities at the spots of the covered frames.
\<close>

theorem sir_intensity_window_mean:
  assumes "key_events_frame mt ''cytokinesis'' = Some c"
    and "0 \<le> cytokinesis_duration cfg"
    and "spots track \<noteq> []"
    and "sorted (map fst (spots track))"
  shows "sir_intensity_of_track cfg mt image_sir track =
     Inr (if 2 * length (window_values mt image_sir track (cytokinesis_window cfg c))
               < length (cytokinesis_window cfg c)
          then NInf
          else Fin (sum_list (window_values mt image_sir track (cytokinesis_window cfg c))
                    / real (length (window_values mt image_sir track (cytokinesis_window cfg c)))))"
proof -
  define h where "h = cytokinesis_duration cfg div 2"
  define vals where "vals = window_values mt image_sir track [c .. c + h]"
  define frames where "frames = map (\<lambda>kv. fst kv + min_frame mt) (spots track)"
  have h0: "0 \<le> h" using assms(2) by (simp add: h_def)
  have hh: "py_int (real_of_int (cytokinesis_duration cfg) / 2) = h"
    using assms(2) by (simp add: py_int_half h_def)
  have win: "cytokinesis_window cfg c = [c .. c + h]"
    by (simp add: cytokinesis_window_def h_def)
  have len: "length [c .. c + h] = nat (h + 1)" by simp
  have cmp: "(real (length vals) < real_of_int (c + h - c + 1) / 2)
               \<longleftrightarrow> 2 * length vals < length [c .. c + h]"
    using h0 by (auto simp: len)  
  have ne: "frames \<noteq> []" using assms(3) by (simp add: frames_def)
  show ?thesis
  proof (cases "c > last frames \<or> c + h < hd frames")
    case True
    have "vals = []"
      unfolding vals_def
      using window_values_outside [OF assms(4) refl _ assms(3), where lo = c and hi = "c + h" and mt = mt and image_sir = image_sir] True
      by (simp add: frames_def)
    then show ?thesis
      using True ne cmp h0
      by (simp add: sir_intensity_of_track_def assms(1) hh Let_def win
          fold_sir_step_NInf frames_def [symmetric] vals_def [symmetric])
  next
    case False
    show ?thesis
      using False ne cmp h0
      by (simp add: sir_intensity_of_track_def assms(1) hh Let_def win
          fold_sir_step_Fin frames_def [symmetric] vals_def [symmetric])
  qed
qed

theorem sir_intensity_window_mean_witness:
  "sir_intensity_of_track example_config example_mitosis example_sir (example_track 1 0 4)
     = Inr (Fin 4)
   \<and> sir_intensity_of_track example_config example_mitosis example_sir (example_track 2 5 4)
     = Inr NInf"
  using sir_intensity_window_mean [of example_mitosis 10 example_config "example_track 1 0 4"
      example_sir]
    sir_intensity_window_mean [of example_mitosis 10 example_config "example_track 2 5 4"
      example_sir]
  by (simp add: ex_defs cytokinesis_window_def window_values_def)

subsection \<open>The ranking\<close>

lemma map_result_all_Inr:
  "(\<And>a. a \<in> set as \<Longrightarrow> f a = Inr (g a)) \<Longrightarrow> map_result f as = Inr (map g as)"
  by (induction as) auto

lemma nth_index_of: "a \<in> set as \<Longrightarrow> map g as ! index_of as a = g a"
  by (induction as) auto

lemma func_sir_intensity_score:
  "t \<in> set kept \<Longrightarrow>
   func_sir_intensity (map ged kept) (map s kept) kept t = track_score ged s t"
  by (simp add: func_sir_intensity_def track_score_def nth_index_of)

lemma flt_irrefl: "\<not> flt a a"
  by (cases a) auto

lemma flt_trans: "flt a b \<Longrightarrow> flt b c \<Longrightarrow> flt a c"
  by (cases a; cases b; cases c) auto

lemma insert_by_key_head:
  assumes "bs = [] \<or> (\<forall>u\<in>set bs. \<not> flt (k u) (k (hd bs)))"
  shows "\<forall>u\<in>set (insert_by_key k a bs). \<not> flt (k u) (k (hd (insert_by_key k a bs)))"
proof (cases bs)
  case Nil
  then show ?thesis by (simp add: flt_irrefl)
next
  case (Cons b bs')
  with assms have hb: "\<forall>u\<in>set (b # bs'). \<not> flt (k u) (k b)" by simp
  show ?thesis
  proof (cases "flt (k a) (k b)")
    case True
    have "\<not> flt (k u) (k a)" if "u \<in> set (b # bs')" for u
      using hb that True flt_trans by blast
    then show ?thesis using True Cons by (auto simp: flt_irrefl)
  next
    case False
    then show ?thesis using hb Cons by (auto simp: set_insert_by_key)
  qed
qed

lemma insert_by_key_not_Nil: "insert_by_key k a bs \<noteq> []"
  by (cases bs) auto

lemma foldl_insert_head:
  assumes "acc = [] \<or> (\<forall>u\<in>set acc. \<not> flt (k u) (k (hd acc)))"
  shows "\<forall>u\<in>set (foldl (\<lambda>acc a. insert_by_key k a acc) acc xs).
           \<not> flt (k u) (k (hd (foldl (\<lambda>acc a. insert_by_key k a acc) acc xs)))"
  using assms
proof (induction xs arbitrary: acc)
  case Nil
  then show ?case by auto
next
  case (Cons x xs)
  have "\<forall>u\<in>set (insert_by_key k x acc). \<not> flt (k u) (k (hd (insert_by_key k x acc)))"
    using insert_by_key_head [OF Cons.prems] .
  then show ?case using Cons.IH [of "insert_by_key k x acc"] by simp
qed

lemma sorted_by_key_head:
  "sorted_by_key k xs = b # rest \<Longrightarrow> u \<in> set xs \<Longrightarrow> \<not> flt (k u) (k b)"
  using foldl_insert_head [of "[]" k xs] set_sorted_by_key [of k xs]
  by (auto simp: sorted_by_key_def)

lemma fold_sir_step_snd:
  "start = NInf \<or> start = Fin 0 \<Longrightarrow>
   snd (fold (sir_step mt image_sir track) ws (0, start)) = NInf
   \<or> (\<exists>r. snd (fold (sir_step mt image_sir track) ws (0, start)) = Fin r)"
  by (auto simp: fold_sir_step_Fin fold_sir_step_NInf)

lemma fdiv_count_range:
  "tot = NInf \<or> (\<exists>r. tot = Fin r) \<Longrightarrow> n \<noteq> 0 \<Longrightarrow>
   fdiv tot (Fin (real n)) = NInf \<or> (\<exists>r. fdiv tot (Fin (real n)) = Fin r)"
  by auto

lemma sir_intensity_range:
  assumes "sir_intensity_of_track cfg mt image_sir track = Inr v"
  shows "v = NInf \<or> (\<exists>r. v = Fin r)"
proof -
  from assms obtain start lo hi where
    st: "start = NInf \<or> start = Fin 0"
    and v: "v = NInf \<or>
        (fst (fold (sir_step mt image_sir track) [lo..hi] (0, start)) \<noteq> 0 \<and>
         v = fdiv (snd (fold (sir_step mt image_sir track) [lo..hi] (0, start)))
               (Fin (real (fst (fold (sir_step mt image_sir track) [lo..hi] (0, start))))))"
    by (auto simp: sir_intensity_of_track_def Let_def split: option.splits if_splits)
  from v show ?thesis
  proof
    assume "v = NInf" then show ?thesis by simp
  next
    assume a: "fst (fold (sir_step mt image_sir track) [lo..hi] (0, start)) \<noteq> 0 \<and>
         v = fdiv (snd (fold (sir_step mt image_sir track) [lo..hi] (0, start)))
               (Fin (real (fst (fold (sir_step mt image_sir track) [lo..hi] (0, start)))))"
    show ?thesis
      using fdiv_count_range [OF fold_sir_step_snd [OF st]] a by blast
  qed
qed

lemma track_score_range:
  assumes "e \<noteq> NaN" "e \<noteq> NInf" "m = NInf \<or> (\<exists>r. m = Fin r)"
  shows "fsub e (fmul (Fin (1 / 2)) m) = PInf \<or> (\<exists>r. fsub e (fmul (Fin (1 / 2)) m) = Fin r)"
  using assms by (cases e) (auto simp: fsub_def inf_times_def)


lemma select_best_track_ranking:
  assumes sir: "\<forall>t\<in>set (length_filter cfg ts). sir_intensity_of_track cfg mt image_sir t = Inr (s t)"
    and ged: "\<forall>t\<in>set ts. ged t \<noteq> NaN \<and> ged t \<noteq> NInf"
  shows "\<exists>r. select_best_track cfg mt ged image_sir ts = Inr r \<and>
    (case r of
       None \<Rightarrow> \<forall>t\<in>set (length_filter cfg ts). track_score ged s t = PInf
     | Some t \<Rightarrow>
         t \<in> set (length_filter cfg ts)
         \<and> (\<exists>v. track_score ged s t = Fin v
               \<and> (\<forall>u\<in>set (length_filter cfg ts). \<forall>w. track_score ged s u = Fin w \<longrightarrow> v \<le> w)))"
proof -
  define kept where "kept = length_filter cfg ts"
  define key where "key = func_sir_intensity (map ged kept) (map s kept) kept"
  define final where "final = filter (\<lambda>track. key track \<noteq> PInf) kept"
  have mr: "map_result (sir_intensity_of_track cfg mt image_sir) kept = Inr (map s kept)"
    using sir by (intro map_result_all_Inr) (simp add: kept_def)
  have sel: "select_best_track cfg mt ged image_sir ts
      = Inr (case sorted_by_key key final of [] \<Rightarrow> None | best # rest \<Rightarrow> Some best)"
    using mr by (simp add: select_best_track_def Let_def kept_def [symmetric]
        key_def [symmetric] final_def [symmetric])
  have key_eq: "key t = track_score ged s t" if "t \<in> set kept" for t
    using that by (simp add: key_def func_sir_intensity_score)
  have rng: "track_score ged s t = PInf \<or> (\<exists>r. track_score ged s t = Fin r)"
    if "t \<in> set kept" for t
  proof -
    have "t \<in> set ts" using that by (simp add: kept_def length_filter_def)
    moreover have "s t = NInf \<or> (\<exists>r. s t = Fin r)"
      using sir that sir_intensity_range unfolding kept_def by blast
    ultimately show ?thesis
      using ged track_score_range unfolding track_score_def by blast
  qed
  show ?thesis
  proof (cases "sorted_by_key key final")
    case Nil
    then have "set final = {}" using set_sorted_by_key [of key final] by simp
    then have "\<forall>t\<in>set kept. track_score ged s t = PInf"
      using key_eq by (auto simp: final_def filter_empty_conv)
    then show ?thesis using sel Nil by (simp add: kept_def)
  next
    case (Cons b rest)
    then have bf: "b \<in> set final" using set_sorted_by_key [of key final]
      by (metis list.set_intros(1))
    then have bk: "b \<in> set kept" and bne: "key b \<noteq> PInf" by (auto simp: final_def)
    then obtain v where v: "track_score ged s b = Fin v"
      using rng key_eq by metis
    have "v \<le> w" if "u \<in> set kept" and "track_score ged s u = Fin w" for u w
    proof -
      have "u \<in> set final" using that key_eq by (simp add: final_def)
      then have "\<not> flt (key u) (key b)" using sorted_by_key_head [OF Cons] by blast
      then show ?thesis using that key_eq bk v by simp
    qed
    then show ?thesis using sel Cons bk v by (auto simp: kept_def)
  qed
qed

lemma sir_intensity_returns:
  assumes "key_events_frame mt ''cytokinesis'' = Some c"
    and "0 \<le> cytokinesis_duration cfg"
    and "spots track \<noteq> []"
  shows "\<exists>v. sir_intensity_of_track cfg mt image_sir track = Inr v"
proof -
  have "0 \<le> cytokinesis_duration cfg div 2" using assms(2) by simp
  then have "(0::real) < real_of_int (c + cytokinesis_duration cfg div 2 - c + 1) / 2"
    by simp
  then show ?thesis
    using assms by (simp add: sir_intensity_of_track_def Let_def py_int_half)
qed

text \<open>
  C7: in a mitosis with a recorded start of cytokinesis, for a cytokinesis duration and a
  minimum track length that are not negative and expected distances that are numbers or
  \<open>+\<infinity>\<close>, the Selector returns without an exception. The key it ranks a kept track by
  is \<open>track_score\<close>, the expected distance minus half the intensity score. It returns no
  track exactly when the score of every kept track is \<open>+\<infinity>\<close>; a returned track is a
  kept one, its score is finite, and no kept track has a smaller finite score.
\<close>

theorem select_best_track_lowest_score:
  assumes key: "key_events_frame mt ''cytokinesis'' = Some c"
    and dur: "0 \<le> cytokinesis_duration cfg"
    and len: "0 \<le> minimum_mid_body_track_length cfg"
    and ged: "\<forall>t\<in>set ts. ged t \<noteq> NaN \<and> ged t \<noteq> NInf"
  shows "\<exists>r. select_best_track cfg mt ged image_sir ts = Inr r \<and>
    (case r of
       None \<Rightarrow> \<forall>t\<in>set (length_filter cfg ts).
                 track_score ged (mean_sir_intensity cfg mt image_sir) t = PInf
     | Some t \<Rightarrow>
         t \<in> set (length_filter cfg ts)
         \<and> (\<exists>v. track_score ged (mean_sir_intensity cfg mt image_sir) t = Fin v
               \<and> (\<forall>u\<in>set (length_filter cfg ts). \<forall>w.
                     track_score ged (mean_sir_intensity cfg mt image_sir) u = Fin w
                       \<longrightarrow> v \<le> w)))"
proof -
  have "\<forall>t\<in>set (length_filter cfg ts).
      sir_intensity_of_track cfg mt image_sir t = Inr (mean_sir_intensity cfg mt image_sir t)"
  proof
    fix t assume "t \<in> set (length_filter cfg ts)"
    then have "spots t \<noteq> []"
      using len by (auto simp: length_filter_def track_length_def)
    then obtain v where "sir_intensity_of_track cfg mt image_sir t = Inr v"
      using sir_intensity_returns [OF key dur] by blast
    then show "sir_intensity_of_track cfg mt image_sir t
                 = Inr (mean_sir_intensity cfg mt image_sir t)"
      by (simp add: mean_sir_intensity_def)
  qed
  from select_best_track_ranking [OF this ged] show ?thesis .
qed

theorem select_best_track_lowest_score_witness:
  "select_best_track example_config example_mitosis (\<lambda>t. Fin 3) example_sir
     [example_track 1 0 1, short_track, example_track 2 0 4, example_track 3 5 1]
     = Inr (Some (example_track 2 0 4))
   \<and> track_score (\<lambda>t. Fin 3) (mean_sir_intensity example_config example_mitosis example_sir)
       (example_track 2 0 4) = Fin 1
   \<and> track_score (\<lambda>t. Fin 3) (mean_sir_intensity example_config example_mitosis example_sir)
       (example_track 1 0 1) = Fin (5 / 2)
   \<and> track_score (\<lambda>t. Fin 3) (mean_sir_intensity example_config example_mitosis example_sir)
       (example_track 3 5 1) = PInf
   \<and> select_best_track example_config example_mitosis (\<lambda>t. Fin 3) example_sir
       [short_track, example_track 3 5 1] = Inr None"
  using select_best_track_lowest_score [of example_mitosis 10 example_config
      "[example_track 1 0 1, short_track, example_track 2 0 4, example_track 3 5 1]"
      "\<lambda>t. Fin 3" example_sir]
  by (simp add: ex_defs select_best_track_def length_filter_def track_length_def
      sir_intensity_of_track_def Let_def py_int_def sir_step_def func_sir_intensity_def
      sorted_by_key_def fsub_def inf_times_def track_score_def mean_sir_intensity_def)

subsection \<open>The two link costs\<close>

lemma fmul_commute: "fmul a b = fmul b a"
  by (cases a; cases b) (auto simp: mult.commute)

lemma fmul_one: "fmul a (Fin 1) = a"
  by (cases a) (auto simp: inf_times_def)

lemma fadd_swap: "fadd (fadd c a) b = fadd (fadd c b) a"
  by (cases a; cases b; cases c) auto

lemma fpow_one: "fpow a 1 = a"
  by (simp add: fmul_one)

lemma fpow_two: "fpow a 2 = fmul a a"
  by (simp add: numeral_2_eq_2 fmul_one)

lemma euclidean_spots:
  "euclidean (Fin (real_of_int (spot_x a)), Fin (real_of_int (spot_y a)))
             (Fin (real_of_int (spot_x b)), Fin (real_of_int (spot_y b)))
   = Fin (distance_to a b)"
proof -
  have "0 \<le> (real_of_int (spot_x a) - real_of_int (spot_x b)) *
       (real_of_int (spot_x a) - real_of_int (spot_x b)) +
       (real_of_int (spot_y a) - real_of_int (spot_y b)) *
       (real_of_int (spot_y a) - real_of_int (spot_y b))"
    by simp
  then show ?thesis
    by (simp add: euclidean_def fpow_two fsub_def distance_to_def power2_eq_square not_less)
qed

lemma dist_metric_spots:
  "dist_metric cfg (spot_coords a) (spot_coords b) = squared_cost cfg a b"
  by (simp add: dist_metric_def spot_coords_def squared_cost_def link_penalty_def
      euclidean_spots Let_def fadd_swap [of "Fin 1"])

lemma link_cost_eq:
  "link_cost cfg spot1 spot2 =
     (if distance_to spot1 spot2 > mid_body_linking_max_distance cfg then PInf
      else fmul (Fin (distance_to spot1 spot2)) (link_penalty cfg spot1 spot2))"
  by (simp add: link_cost_def Let_def link_penalty_def fmul_one
      fmul_commute [of _ "Fin (distance_to spot1 spot2)"])

text \<open>
  C1, amended: for a pair of spots whose distance does not exceed the maximum linking
  distance, the entry of the frame-to-frame cost matrix is distance times penalty, to the
  first power, and the distance metric of the track builder is the square of that product.
\<close>

theorem link_costs_by_path:
  assumes "distance_to spot1 spot2 \<le> mid_body_linking_max_distance cfg"
  shows "link_cost cfg spot1 spot2
           = fmul (Fin (distance_to spot1 spot2)) (link_penalty cfg spot1 spot2)
       \<and> dist_metric cfg (spot_coords spot1) (spot_coords spot2)
           = fpow (fmul (Fin (distance_to spot1 spot2)) (link_penalty cfg spot1 spot2)) 2"
proof
  show "link_cost cfg spot1 spot2
           = fmul (Fin (distance_to spot1 spot2)) (link_penalty cfg spot1 spot2)"
    using assms by (simp add: link_cost_eq)
  show "dist_metric cfg (spot_coords spot1) (spot_coords spot2)
           = fpow (fmul (Fin (distance_to spot1 spot2)) (link_penalty cfg spot1 spot2)) 2"
    by (simp only: dist_metric_spots squared_cost_def)
qed

lemma distance_to_same_row:
  "spot_y a = spot_y b \<Longrightarrow> distance_to a b = \<bar>real_of_int (spot_x a - spot_x b)\<bar>"
  by (simp add: distance_to_def)

lemma intensity_term_equal: "a \<noteq> 0 \<Longrightarrow> intensity_term w (Fin a) (Fin a) = Fin 0"
  by (simp add: intensity_term_def fsub_def)

theorem link_costs_by_path_witness:
  "link_cost (default_config 2) (example_spot 0 0) (example_spot 1 3) = Fin 3
   \<and> dist_metric (default_config 2) (spot_coords (example_spot 0 0))
        (spot_coords (example_spot 1 3)) = Fin 9"
proof -
  have d: "distance_to (example_spot 0 0) (example_spot 1 3) = 3"
    by (simp add: distance_to_same_row example_spot_def)
  have p: "link_penalty (default_config 2) (example_spot 0 0) (example_spot 1 3) = Fin 1"
    by (simp add: link_penalty_def example_spot_def intensity_term_equal)
  have m: "mid_body_linking_max_distance (default_config 2) = 175"
    by (simp add: default_config_def)
  show ?thesis
    using link_costs_by_path [of "example_spot 0 0" "example_spot 1 3" "default_config 2"]
    by (simp add: d p m fpow_two)
qed

text \<open>
  C1, as stated: the link cost of a pair within the maximum linking distance would be the
  squared formula in both code paths. Two spots at distance 3 with equal intensities have
  the entry 3 in the frame-to-frame cost matrix, and the squared formula gives 9.
\<close>

theorem link_cost_not_squared:
  "distance_to (example_spot 0 0) (example_spot 1 3)
      \<le> mid_body_linking_max_distance (default_config 2)
   \<and> link_cost (default_config 2) (example_spot 0 0) (example_spot 1 3) = Fin 3
   \<and> squared_cost (default_config 2) (example_spot 0 0) (example_spot 1 3) = Fin 9
   \<and> link_cost (default_config 2) (example_spot 0 0) (example_spot 1 3)
       \<noteq> squared_cost (default_config 2) (example_spot 0 0) (example_spot 1 3)"
proof -
  have d: "distance_to (example_spot 0 0) (example_spot 1 3) = 3"
    by (simp add: distance_to_same_row example_spot_def)
  have p: "link_penalty (default_config 2) (example_spot 0 0) (example_spot 1 3) = Fin 1"
    by (simp add: link_penalty_def example_spot_def intensity_term_equal)
  have m: "mid_body_linking_max_distance (default_config 2) = 175"
    by (simp add: default_config_def)
  show ?thesis
    by (simp add: d p m link_cost_eq squared_cost_def fpow_two)
qed

lemma intensity_term_nonneg:
  assumes "0 \<le> w" and "0 < a + b"
  shows "\<exists>r. intensity_term w (Fin a) (Fin b) = Fin r \<and> 0 \<le> r"
  using assms by (simp add: intensity_term_def fsub_def)

lemma link_penalty_ge_one:
  assumes "0 \<le> weight_mklp_intensity_factor cfg" and "0 \<le> weight_sir_intensity_factor cfg"
    and "0 < intensity s1 + intensity s2" and "0 < sir_intensity s1 + sir_intensity s2"
  shows "\<exists>p. link_penalty cfg s1 s2 = Fin p \<and> 1 \<le> p"
proof -
  obtain r1 where r1: "intensity_term (weight_mklp_intensity_factor cfg)
      (Fin (real_of_int (intensity s1))) (Fin (real_of_int (intensity s2))) = Fin r1" "0 \<le> r1"
    using intensity_term_nonneg [OF assms(1), of "real_of_int (intensity s1)" "real_of_int (intensity s2)"]
      assms(3) by (metis of_int_0_less_iff of_int_add)
  obtain r2 where r2: "intensity_term (weight_sir_intensity_factor cfg)
      (Fin (real_of_int (sir_intensity s1))) (Fin (real_of_int (sir_intensity s2))) = Fin r2" "0 \<le> r2"
    using intensity_term_nonneg [OF assms(2), of "real_of_int (sir_intensity s1)" "real_of_int (sir_intensity s2)"]
      assms(4) by (metis of_int_0_less_iff of_int_add)
  show ?thesis using r1 r2 by (simp add: link_penalty_def)
qed

lemma distance_to_nonneg: "0 \<le> distance_to a b"
  by (simp add: distance_to_def)

lemma distance_to_pos_ge_one:
  assumes "0 < distance_to a b"
  shows "1 \<le> distance_to a b"
proof -
  define k where "k = (spot_x a - spot_x b)\<^sup>2 + (spot_y a - spot_y b)\<^sup>2"
  have "0 < real_of_int k" using assms by (simp add: distance_to_def k_def)
  then have "1 \<le> k" by simp
  then have "1 \<le> real_of_int k" by simp
  then have "1 \<le> sqrt (real_of_int k)" by simp
  then show ?thesis by (simp add: distance_to_def k_def)
qed

lemma squared_cost_bounds:
  assumes "0 \<le> weight_mklp_intensity_factor cfg" and "0 \<le> weight_sir_intensity_factor cfg"
    and "0 < intensity s1 + intensity s2" and "0 < sir_intensity s1 + sir_intensity s2"
  shows "\<exists>c. squared_cost cfg s1 s2 = Fin c \<and> (distance_to s1 s2)\<^sup>2 \<le> c"
proof -
  obtain p where p: "link_penalty cfg s1 s2 = Fin p" "1 \<le> p"
    using link_penalty_ge_one [OF assms] by blast
  have "distance_to s1 s2 * 1 \<le> distance_to s1 s2 * p"
    using p(2) distance_to_nonneg [of s1 s2] by (intro mult_left_mono) auto
  then have "(distance_to s1 s2)\<^sup>2 \<le> (distance_to s1 s2 * p)\<^sup>2"
    using distance_to_nonneg [of s1 s2] by (intro power_mono) auto
  then show ?thesis
    by (simp add: squared_cost_def p fpow_two power2_eq_square)
qed

text \<open>
  Where no intensity sum is zero the exclusion holds: a pair of spots whose distance exceeds
  the maximum linking distance has an infinite entry in the frame-to-frame cost matrix, and
  in the track builder its cost exceeds the linking cutoff and the gap-closing cutoff of
  either backend, for a maximum distance and weights that are not negative and intensities
  whose sums are positive.
\<close>

lemma beyond_max_distance_excluded:
  assumes far: "distance_to s1 s2 > mid_body_linking_max_distance cfg"
    and mx: "0 \<le> mid_body_linking_max_distance cfg"
    and w1: "0 \<le> weight_mklp_intensity_factor cfg"
    and w2: "0 \<le> weight_sir_intensity_factor cfg"
    and i1: "0 < intensity s1 + intensity s2"
    and i2: "0 < sir_intensity s1 + sir_intensity s2"
    and lt: "make_linker cfg tracking_method = Inr lt"
  shows "link_cost cfg s1 s2 = PInf
    \<and> fgt (dist_metric cfg (spot_coords s1) (spot_coords s2)) (Fin (track_cost_cutoff lt))
    \<and> fgt (dist_metric cfg (spot_coords s1) (spot_coords s2)) (Fin (gap_closing_cost_cutoff lt))"
proof -
  let ?d = "distance_to s1 s2" and ?m = "mid_body_linking_max_distance cfg"
  obtain c where c: "squared_cost cfg s1 s2 = Fin c" "?d\<^sup>2 \<le> c"
    using squared_cost_bounds [OF w1 w2 i1 i2] by blast
  have sq: "?m\<^sup>2 < ?d\<^sup>2"
    using far mx by (intro power_strict_mono) auto
  have "1 \<le> ?d" using far mx by (intro distance_to_pos_ge_one) simp
  then have "?d * 1 \<le> ?d * ?d" by (intro mult_left_mono) auto
  then have lin: "?m < ?d\<^sup>2" using far by (simp add: power2_eq_square)
  have cut: "track_cost_cutoff lt = ?m\<^sup>2 \<and> gap_closing_cost_cutoff lt = ?m\<^sup>2
           \<or> track_cost_cutoff lt = ?m \<and> gap_closing_cost_cutoff lt = ?m"
    using lt by (auto simp: make_linker_def Let_def split: if_splits)
  have a: "link_cost cfg s1 s2 = PInf" using far by (simp add: link_cost_eq)
  have b: "fgt (dist_metric cfg (spot_coords s1) (spot_coords s2)) (Fin (track_cost_cutoff lt))"
    using cut c sq lin by (auto simp: dist_metric_spots fgt_def)
  have d: "fgt (dist_metric cfg (spot_coords s1) (spot_coords s2)) (Fin (gap_closing_cost_cutoff lt))"
    using cut c sq lin by (auto simp: dist_metric_spots fgt_def)
  from a b d show ?thesis by simp
qed

lemma beyond_max_distance_excluded_example:
  "link_cost (default_config 2) (example_spot 0 0) (example_spot 1 200) = PInf
   \<and> dist_metric (default_config 2) (spot_coords (example_spot 0 0))
        (spot_coords (example_spot 1 200)) = Fin 40000
   \<and> map_sum id track_cost_cutoff (make_linker (default_config 2) ''laptrack'') = Inr 30625
   \<and> map_sum id track_cost_cutoff (make_linker (default_config 2) ''spatial_laptrack'') = Inr 175"
proof -
  have d: "distance_to (example_spot 0 0) (example_spot 1 200) = 200"
    by (simp add: distance_to_same_row example_spot_def)
  have p: "link_penalty (default_config 2) (example_spot 0 0) (example_spot 1 200) = Fin 1"
    by (simp add: link_penalty_def example_spot_def intensity_term_equal)
  have m: "mid_body_linking_max_distance (default_config 2) = 175"
    by (simp add: default_config_def)
  have l: "make_linker (default_config 2) ''laptrack'' = Inr
     \<lparr> backend_of = LapTrack, track_cost_cutoff = 30625, gap_closing_cost_cutoff = 30625,
       gap_closing_max_frame_count = 2, splitting_cost_cutoff = False,
       merging_cost_cutoff = False, alternative_cost_percentile = 1 / 100 \<rparr>"
    by (simp add: make_linker_def m Let_def)
  have i: "0 < intensity (example_spot 0 0) + intensity (example_spot 1 200)"
      "0 < sir_intensity (example_spot 0 0) + sir_intensity (example_spot 1 200)"
    by (simp_all add: example_spot_def)
  have w: "0 \<le> weight_mklp_intensity_factor (default_config 2)"
      "0 \<le> weight_sir_intensity_factor (default_config 2)"
    by (simp_all add: default_config_def)
  have f: "distance_to (example_spot 0 0) (example_spot 1 200)
             > mid_body_linking_max_distance (default_config 2)"
    by (simp add: d m)
  have m0: "0 \<le> mid_body_linking_max_distance (default_config 2)" by (simp add: m)
  show ?thesis
    using beyond_max_distance_excluded [OF f m0 w i l]
    by (simp add: dist_metric_spots squared_cost_def d p fpow_two make_linker_def m Let_def)
qed

text \<open>The entry of the cost matrix is infinite beyond the maximum distance, whatever the
  intensities and the weights are.\<close>

lemma link_cost_beyond_max:
  "distance_to spot1 spot2 > mid_body_linking_max_distance cfg \<Longrightarrow> link_cost cfg spot1 spot2 = PInf"
  by (simp add: link_cost_eq)

lemma dark_distances:
  "distance_to (example_spot_with 0 i s) (example_spot_with x j t) = \<bar>real_of_int x\<bar>"
  by (simp add: distance_to_same_row example_spot_with_def)

text \<open>
  C6: two spots at distance 200, beyond the maximum linking distance 175, with equal primary
  intensities and the secondary intensity 0 both. The frame-to-frame cost matrix excludes
  the pair, its entry is infinite. In the track builder the secondary penalty is
  \<^verbatim>\<open>0.0 / 0.0\<close>, the cost of the pair is NaN, and NaN exceeds neither the cutoff 30625 of
  the basic backend nor the cutoff 175 of the spatial one.
\<close>

theorem dark_pair_metric_is_nan:
  "distance_to (example_spot_with 0 5 0) (example_spot_with 200 5 0)
     > mid_body_linking_max_distance (default_config 2)
   \<and> link_cost (default_config 2) (example_spot_with 0 5 0) (example_spot_with 200 5 0) = PInf
   \<and> dist_metric (default_config 2) (spot_coords (example_spot_with 0 5 0))
        (spot_coords (example_spot_with 200 5 0)) = NaN
   \<and> map_sum id track_cost_cutoff (make_linker (default_config 2) ''laptrack'') = Inr 30625
   \<and> map_sum id track_cost_cutoff (make_linker (default_config 2) ''spatial_laptrack'') = Inr 175
   \<and> \<not> fgt (dist_metric (default_config 2) (spot_coords (example_spot_with 0 5 0))
              (spot_coords (example_spot_with 200 5 0))) (Fin 30625)
   \<and> \<not> fgt (dist_metric (default_config 2) (spot_coords (example_spot_with 0 5 0))
              (spot_coords (example_spot_with 200 5 0))) (Fin 175)"
proof -
  have m: "mid_body_linking_max_distance (default_config 2) = 175"
    by (simp add: default_config_def)
  have p: "link_penalty (default_config 2) (example_spot_with 0 5 0) (example_spot_with 200 5 0)
             = NaN"
    by (simp add: link_penalty_def example_spot_with_def intensity_term_def fsub_def)
  have d: "dist_metric (default_config 2) (spot_coords (example_spot_with 0 5 0))
        (spot_coords (example_spot_with 200 5 0)) = NaN"
    by (simp add: dist_metric_spots squared_cost_def p dark_distances fpow_two)
  show ?thesis
    by (simp add: d m dark_distances link_cost_eq fgt_def make_linker_def Let_def)
qed

subsection \<open>The padded cost matrix\<close>

lemma fill_row_length: "length (fst (fill_row cfg s1 ss j st)) = length (fst st)"
  by (induction ss arbitrary: j st) auto

lemma fill_row_nth:
  "j + length ss \<le> length (fst st) \<Longrightarrow>
   fst (fill_row cfg s1 ss j st) ! k =
     (if j \<le> k \<and> k < j + length ss then link_cost cfg s1 (ss ! (k - j)) else fst st ! k)"
proof (induction ss arbitrary: j st)
  case Nil
  then show ?case by auto
next
  case (Cons s2 rest)
  have "Suc j + length rest \<le> length (fst ((fst st)[j := link_cost cfg s1 s2],
        if distance_to s1 s2 > mid_body_linking_max_distance cfg then snd st
        else py_max (snd st) (link_cost cfg s1 s2)))"
    using Cons.prems by simp
  from Cons.IH [OF this] Cons.prems show ?case
    by (auto simp: nth_list_update nth_Cons')
qed

lemma fill_row_snd: "snd (fill_row cfg s1 ss j st) = fold (max_step cfg s1) ss (snd st)"
  by (induction ss arbitrary: j st) (auto simp: max_step_def)

lemma fill_rows_length: "length (fst (fill_rows cfg ss1 spots2 i st)) = length (fst st)"
  by (induction ss1 arbitrary: i st) (auto simp: Let_def)

lemma fill_rows_snd:
  "snd (fill_rows cfg ss1 spots2 i st) = fold (\<lambda>s1. fold (max_step cfg s1) spots2) ss1 (snd st)"
  by (induction ss1 arbitrary: i st) (auto simp: Let_def fill_row_snd)

lemma fill_rows_nth:
  assumes "i + length ss1 \<le> length (fst st)"
    and "\<forall>k<length (fst st). length spots2 \<le> length (fst st ! k)"
    and "k < length (fst st)"
  shows "length (fst (fill_rows cfg ss1 spots2 i st) ! k) = length (fst st ! k)
    \<and> fst (fill_rows cfg ss1 spots2 i st) ! k ! l =
       (if i \<le> k \<and> k < i + length ss1 \<and> l < length spots2
        then link_cost cfg (ss1 ! (k - i)) (spots2 ! l) else fst st ! k ! l)"
  using assms
proof (induction ss1 arbitrary: i st)
  case Nil
  then show ?case by auto
next
  case (Cons s1 rest)
  define r where "r = fill_row cfg s1 spots2 0 (fst st ! i, snd st)"
  define st' where "st' = ((fst st)[i := fst r], snd r)"
  have il: "i < length (fst st)" using Cons.prems(1) by simp
  have rl: "length (fst r) = length (fst st ! i)" by (simp add: r_def fill_row_length)
  have rn: "fst r ! l = (if l < length spots2 then link_cost cfg s1 (spots2 ! l) else fst st ! i ! l)"
    using fill_row_nth [of 0 spots2 "(fst st ! i, snd st)" cfg s1 l] Cons.prems(2) il
    by (simp add: r_def)
  have p1: "Suc i + length rest \<le> length (fst st')" using Cons.prems(1) by (simp add: st'_def)
  have p2: "\<forall>k<length (fst st'). length spots2 \<le> length (fst st' ! k)"
  proof (intro allI impI)
    fix k' assume "k' < length (fst st')"
    then have kl: "k' < length (fst st)" by (simp add: st'_def)
    show "length spots2 \<le> length (fst st' ! k')"
    proof (cases "k' = i")
      case True
      then show ?thesis using Cons.prems(2) rl il by (simp add: st'_def)
    next
      case False
      then show ?thesis using Cons.prems(2) kl by (simp add: st'_def)
    qed
  qed
  have p3: "k < length (fst st')" using Cons.prems(3) by (simp add: st'_def)
  have step: "fill_rows cfg (s1 # rest) spots2 i st = fill_rows cfg rest spots2 (Suc i) st'"
    by (simp add: Let_def r_def st'_def)
  have old: "fst st' ! k = (if k = i then fst r else fst st ! k)"
    using Cons.prems(3) by (simp add: st'_def nth_list_update)
  note ih = Cons.IH [OF p1 p2 p3]
  show ?case
  proof (cases "k = i")
    case True
    then show ?thesis unfolding step using ih old rl rn by (simp add: nth_Cons')
  next
    case False
    then show ?thesis unfolding step using ih old by (auto simp: nth_Cons')
  qed
qed

lemma flt_total: "\<not> isnan a \<Longrightarrow> \<not> isnan b \<Longrightarrow> flt a b \<or> a = b \<or> flt b a"
  by (cases a; cases b) auto

lemma fold_np_min2:
  assumes "\<not> isnan a" and "\<forall>c\<in>set as. \<not> isnan c"
  shows "fold (\<lambda>b acc. np_min2 acc b) as a \<in> insert a (set as)
     \<and> \<not> isnan (fold (\<lambda>b acc. np_min2 acc b) as a)
     \<and> (\<forall>c\<in>insert a (set as). \<not> flt c (fold (\<lambda>b acc. np_min2 acc b) as a))"
  using assms
proof (induction as arbitrary: a)
  case Nil
  then show ?case by (simp add: flt_irrefl)
next
  case (Cons b bs)
  define a' where "a' = np_min2 a b"
  define v where "v = fold (\<lambda>b acc. np_min2 acc b) bs a'"
  have nb: "\<not> isnan b" using Cons.prems(2) by simp
  have a'_eq: "a' = (if flt b a then b else a)"
    using Cons.prems(1) nb by (simp add: a'_def np_min2_def)
  have na': "\<not> isnan a'" using a'_eq Cons.prems(1) nb by simp
  have ih: "v \<in> insert a' (set bs) \<and> \<not> isnan v \<and> (\<forall>c\<in>insert a' (set bs). \<not> flt c v)"
    unfolding v_def using Cons.IH [OF na'] Cons.prems(2) by simp
  have va': "\<not> flt a' v" using ih by simp
  have "\<not> flt a v \<and> \<not> flt b v"
  proof (cases "flt b a")
    case True
    then have "a' = b" by (simp add: a'_eq)
    then show ?thesis using va' True flt_trans by blast
  next
    case False
    then have e: "a' = a" by (simp add: a'_eq)
    have "\<not> flt b v"
    proof
      assume bv: "flt b v"
      have "flt v a \<or> v = a \<or> flt a v" using flt_total ih Cons.prems(1) by blast
      then show False using bv False va' e flt_trans by blast
    qed
    then show ?thesis using va' e by simp
  qed
  moreover have "v \<in> insert a (set (b # bs))" using ih a'_eq by (auto split: if_splits)
  ultimately show ?case using ih by (simp add: v_def a'_def)
qed

lemma fold_np_max2:
  assumes "\<not> isnan a" and "\<forall>c\<in>set as. \<not> isnan c"
  shows "fold (\<lambda>b acc. np_max2 acc b) as a \<in> insert a (set as)
     \<and> \<not> isnan (fold (\<lambda>b acc. np_max2 acc b) as a)
     \<and> (\<forall>c\<in>insert a (set as). \<not> flt (fold (\<lambda>b acc. np_max2 acc b) as a) c)"
  using assms
proof (induction as arbitrary: a)
  case Nil
  then show ?case by (simp add: flt_irrefl)
next
  case (Cons b bs)
  define a' where "a' = np_max2 a b"
  define v where "v = fold (\<lambda>b acc. np_max2 acc b) bs a'"
  have nb: "\<not> isnan b" using Cons.prems(2) by simp
  have a'_eq: "a' = (if flt a b then b else a)"
    using Cons.prems(1) nb by (simp add: a'_def np_max2_def)
  have na': "\<not> isnan a'" using a'_eq Cons.prems(1) nb by simp
  have ih: "v \<in> insert a' (set bs) \<and> \<not> isnan v \<and> (\<forall>c\<in>insert a' (set bs). \<not> flt v c)"
    unfolding v_def using Cons.IH [OF na'] Cons.prems(2) by simp
  have va': "\<not> flt v a'" using ih by simp
  have "\<not> flt v a \<and> \<not> flt v b"
  proof (cases "flt a b")
    case True
    then have "a' = b" by (simp add: a'_eq)
    then show ?thesis using va' True flt_trans by blast
  next
    case False
    then have e: "a' = a" by (simp add: a'_eq)
    have "\<not> flt v b"
    proof
      assume bv: "flt v b"
      have "flt v a \<or> v = a \<or> flt a v" using flt_total ih Cons.prems(1) by blast
      then show False using bv False va' e flt_trans by blast
    qed
    then show ?thesis using va' e by simp
  qed
  moreover have "v \<in> insert a (set (b # bs))" using ih a'_eq by (auto split: if_splits)
  ultimately show ?case using ih by (simp add: v_def a'_def)
qed

lemma np_min_least:
  assumes "xs \<noteq> []" and "\<forall>c\<in>set xs. \<not> isnan c"
  shows "\<exists>v. np_min xs = Inr v \<and> v \<in> set xs \<and> (\<forall>c\<in>set xs. \<not> flt c v)"
proof (cases xs)
  case Nil
  then show ?thesis using assms by simp
next
  case (Cons a as)
  then show ?thesis using fold_np_min2 [of a as] assms(2) by simp
qed

lemma np_max_greatest:
  assumes "xs \<noteq> []" and "\<forall>c\<in>set xs. \<not> isnan c"
  shows "\<exists>v. np_max xs = Inr v \<and> v \<in> set xs \<and> (\<forall>c\<in>set xs. \<not> flt v c)"
proof (cases xs)
  case Nil
  then show ?thesis using assms by simp
next
  case (Cons a as)
  then show ?thesis using fold_np_max2 [of a as] assms(2) by simp
qed

lemma link_cost_cases:
  assumes "0 \<le> weight_mklp_intensity_factor cfg" and "0 \<le> weight_sir_intensity_factor cfg"
    and "0 < intensity s1 + intensity s2" and "0 < sir_intensity s1 + sir_intensity s2"
  shows "(distance_to s1 s2 > mid_body_linking_max_distance cfg \<and> link_cost cfg s1 s2 = PInf)
       \<or> (\<not> distance_to s1 s2 > mid_body_linking_max_distance cfg
           \<and> (\<exists>r. link_cost cfg s1 s2 = Fin r \<and> 0 \<le> r))"
proof -
  obtain p where p: "link_penalty cfg s1 s2 = Fin p" "1 \<le> p"
    using link_penalty_ge_one [OF assms] by blast
  have "0 \<le> distance_to s1 s2 * p" using p(2) distance_to_nonneg [of s1 s2] by simp
  then show ?thesis by (simp add: link_cost_eq p)
qed

lemma fold_max_upd:
  assumes "\<forall>c\<in>set cs. cost_ok c" and "0 \<le> m0"
  shows "\<exists>mx. fold max_upd cs (Fin m0) = Fin mx \<and> m0 \<le> mx
           \<and> (\<forall>r. Fin r \<in> set cs \<longrightarrow> r \<le> mx) \<and> (mx = m0 \<or> Fin mx \<in> set cs)"
  using assms
proof (induction cs arbitrary: m0)
  case Nil
  then show ?case by simp
next
  case (Cons c cs)
  have ok: "cost_ok c" using Cons.prems(1) by simp
  show ?case
  proof (cases c)
    case (Fin r)
    then have r0: "0 \<le> r" using ok by (simp add: cost_ok_def)
    have upd: "max_upd c (Fin m0) = Fin (max m0 r)"
      by (auto simp: max_upd_def py_max_def fgt_def Fin)
    have "0 \<le> max m0 r" using Cons.prems(2) by simp
    from Cons.IH [OF _ this] Cons.prems(1) obtain mx where
      mx: "fold max_upd cs (Fin (max m0 r)) = Fin mx" "max m0 r \<le> mx"
        "\<forall>r. Fin r \<in> set cs \<longrightarrow> r \<le> mx" "mx = max m0 r \<or> Fin mx \<in> set cs"
      by auto
    show ?thesis using mx upd Fin by (auto simp: max_def split: if_splits)
  next
    case PInf
    then have upd: "max_upd c (Fin m0) = Fin m0" by (simp add: max_upd_def)
    from Cons.IH [OF _ Cons.prems(2)] Cons.prems(1) show ?thesis
      using upd PInf by auto
  next
    case NInf
    then show ?thesis using ok by (simp add: cost_ok_def)
  next
    case NaN
    then show ?thesis using ok by (simp add: cost_ok_def)
  qed
qed

lemma set_finite_costs: "set (finite_costs cs) = {r. Fin r \<in> set cs}"
  by (auto simp: finite_costs_def split: fl.splits)

lemma fold_max_upd_max_finite:
  assumes "\<forall>c\<in>set cs. cost_ok c"
  shows "fold max_upd cs (Fin 0) = Fin (max_finite_cost cs)"
proof -
  obtain mx where mx: "fold max_upd cs (Fin 0) = Fin mx" "0 \<le> mx"
      "\<forall>r. Fin r \<in> set cs \<longrightarrow> r \<le> mx" "mx = 0 \<or> Fin mx \<in> set cs"
    using fold_max_upd [OF assms, of 0] by auto
  show ?thesis
  proof (cases "finite_costs cs = []")
    case True
    then have "\<forall>r. Fin r \<notin> set cs" using set_finite_costs [of cs] by auto
    then show ?thesis using mx True by (auto simp: max_finite_cost_def)
  next
    case False
    then obtain r where r: "Fin r \<in> set cs"
      using set_finite_costs [of cs] by (metis Collect_empty_eq empty_set mem_Collect_eq set_empty)
    have "0 \<le> r" using assms r by (auto simp: cost_ok_def)
    then have "Fin mx \<in> set cs" using mx r by (cases "mx = 0") (auto dest!: spec [of _ r])
    then have "mx \<in> set (finite_costs cs)" by (simp add: set_finite_costs)
    moreover have "\<forall>y\<in>set (finite_costs cs). y \<le> mx" using mx(3) by (simp add: set_finite_costs)
    ultimately have "Max (set (finite_costs cs)) = mx" by (intro Max_eqI) auto
    then show ?thesis using mx(1) False by (simp add: max_finite_cost_def)
  qed
qed

lemma fold_max_step_row:
  assumes "\<forall>s2\<in>set ss. (distance_to s1 s2 > mid_body_linking_max_distance cfg)
                          = (link_cost cfg s1 s2 = PInf)"
  shows "fold (max_step cfg s1) ss mc = fold max_upd (map (link_cost cfg s1) ss) mc"
  using assms by (induction ss arbitrary: mc) (auto simp: max_step_def max_upd_def)

lemma fold_max_step_rows:
  assumes "\<forall>s1\<in>set ss1. \<forall>s2\<in>set ss2.
             (distance_to s1 s2 > mid_body_linking_max_distance cfg)
               = (link_cost cfg s1 s2 = PInf)"
  shows "fold (\<lambda>s1. fold (max_step cfg s1) ss2) ss1 mc
           = fold max_upd (pairwise_costs cfg ss1 ss2) mc"
  using assms
proof (induction ss1 arbitrary: mc)
  case Nil
  then show ?case by (simp add: pairwise_costs_def)
next
  case (Cons s1 rest)
  have row: "fold (max_step cfg s1) ss2 mc = fold max_upd (map (link_cost cfg s1) ss2) mc"
    using Cons.prems by (intro fold_max_step_row) simp
  have rest: "fold (\<lambda>s1. fold (max_step cfg s1) ss2) rest mc'
           = fold max_upd (pairwise_costs cfg rest ss2) mc'" for mc'
    using Cons.prems by (intro Cons.IH) simp
  show ?case by (simp add: row rest pairwise_costs_def)
qed

lemma set_pairwise_costs:
  "set (pairwise_costs cfg ss1 ss2) = {link_cost cfg s1 s2 | s1 s2. s1 \<in> set ss1 \<and> s2 \<in> set ss2}"
  by (auto simp: pairwise_costs_def)

lemma min_nonzero_cost_eq:
  assumes ok: "\<forall>c\<in>set cs. cost_ok c"
    and v: "v \<in> set cs" "v \<noteq> Fin 0"
    and least: "\<forall>c\<in>set cs. c \<noteq> Fin 0 \<longrightarrow> \<not> flt c v"
  shows "min_nonzero_cost cs = v"
proof (cases "filter (\<lambda>r. r \<noteq> 0) (finite_costs cs) = []")
  case True
  then have nofin: "\<forall>r. Fin r \<in> set cs \<longrightarrow> r = 0"
    using set_finite_costs [of cs] by (auto simp: filter_empty_conv)
  have "cost_ok v" using ok v(1) by simp
  then have "v = PInf" using v nofin by (cases v) (auto simp: cost_ok_def)
  then show ?thesis using True v(1) by (simp add: min_nonzero_cost_def)
next
  case False
  then obtain r where r: "Fin r \<in> set cs" "r \<noteq> 0"
    using set_finite_costs [of cs] by (auto simp: filter_empty_conv)
  have "\<not> flt (Fin r) v" using least r by auto
  moreover have "cost_ok v" using ok v(1) by simp
  ultimately obtain r0 where r0: "v = Fin r0" by (cases v) (auto simp: cost_ok_def)
  have mem: "r0 \<in> set (filter (\<lambda>r. r \<noteq> 0) (finite_costs cs))"
    using v r0 by (simp add: set_finite_costs)
  have le: "\<forall>y\<in>set (filter (\<lambda>r. r \<noteq> 0) (finite_costs cs)). r0 \<le> y"
  proof
    fix y assume "y \<in> set (filter (\<lambda>r. r \<noteq> 0) (finite_costs cs))"
    then have "Fin y \<in> set cs" "Fin y \<noteq> Fin 0" by (simp_all add: set_finite_costs)
    then have "\<not> flt (Fin y) v" using least by blast
    then show "r0 \<le> y" using r0 by simp
  qed
  have "Min (set (filter (\<lambda>r. r \<noteq> 0) (finite_costs cs))) = r0"
    using mem le by (intro Min_eqI) auto
  then show ?thesis using False r0 by (simp add: min_nonzero_cost_def)
qed

lemma min_nonzero_cost_all_zero:
  assumes "\<forall>c\<in>set cs. c = Fin 0"
  shows "min_nonzero_cost cs = Fin 0"
proof -
  have "filter (\<lambda>r. r \<noteq> 0) (finite_costs cs) = []"
    using assms set_finite_costs [of cs] by (auto simp: filter_empty_conv)
  moreover have "PInf \<notin> set cs" using assms by auto
  ultimately show ?thesis by (simp add: min_nonzero_cost_def)
qed

lemma set_block_length: "length (set_block m r0 r1 c0 c1 v) = length m"
  by (simp add: set_block_def)

lemma set_block_row_length:
  "i < length m \<Longrightarrow> length (set_block m r0 r1 c0 c1 v ! i) = length (m ! i)"
  by (simp add: set_block_def)

lemma set_block_nth:
  "i < length m \<Longrightarrow> j < length (m ! i) \<Longrightarrow>
   set_block m r0 r1 c0 c1 v ! i ! j =
     (if r0 \<le> i \<and> i < r1 \<and> c0 \<le> j \<and> j < c1 then v else m ! i ! j)"
  by (simp add: set_block_def)

lemma filled_matrix:
  fixes cfg :: config and spots1 spots2 :: "mid_body_spot list"
  defines "n \<equiv> length spots1 + length spots2"
  defines "m1 \<equiv> fst (fill_rows cfg spots1 spots2 0 (zeros n n, Fin 0))"
  shows "length m1 = n"
    and "k < n \<Longrightarrow> length (m1 ! k) = n"
    and "k < n \<Longrightarrow> l < n \<Longrightarrow>
         m1 ! k ! l = (if k < length spots1 \<and> l < length spots2
                       then link_cost cfg (spots1 ! k) (spots2 ! l) else Fin 0)"
proof -
  show "length m1 = n" by (simp add: m1_def fill_rows_length zeros_def)
  have a: "0 + length spots1 \<le> length (fst (zeros n n, Fin 0))"
    by (simp add: zeros_def n_def)
  have b: "\<forall>k<length (fst (zeros n n, Fin 0)). length spots2 \<le> length (fst (zeros n n, Fin 0) ! k)"
    by (simp add: zeros_def n_def)
  {
    assume k: "k < n"
    then have c: "k < length (fst (zeros n n, Fin 0))" by (simp add: zeros_def)
    from fill_rows_nth [OF a b c, of cfg l] k
    show "length (m1 ! k) = n" by (simp add: m1_def zeros_def)
    assume l: "l < n"
    from fill_rows_nth [OF a b c, of cfg l] k l
    show "m1 ! k ! l = (if k < length spots1 \<and> l < length spots2
                       then link_cost cfg (spots1 ! k) (spots2 ! l) else Fin 0)"
      by (simp add: m1_def zeros_def)
  }
qed

lemma in_set_concat_nth:
  "x \<in> set (concat m) \<longleftrightarrow> (\<exists>k<length m. \<exists>l<length (m ! k). x = m ! k ! l)"
proof
  assume "x \<in> set (concat m)"
  then obtain row where "row \<in> set m" "x \<in> set row" by auto
  then obtain k l where "k < length m" "row = m ! k" "l < length row" "x = row ! l"
    by (metis in_set_conv_nth)
  then show "\<exists>k<length m. \<exists>l<length (m ! k). x = m ! k ! l" by auto
next
  assume "\<exists>k<length m. \<exists>l<length (m ! k). x = m ! k ! l"
  then obtain k l where kl: "k < length m" "l < length (m ! k)" "x = m ! k ! l" by auto
  then have "m ! k \<in> set m" "x \<in> set (m ! k)" by simp_all
  then show "x \<in> set (concat m)" by auto
qed

lemma filled_entries:
  fixes cfg :: config and spots1 spots2 :: "mid_body_spot list"
  defines "n \<equiv> length spots1 + length spots2"
  defines "m1 \<equiv> fst (fill_rows cfg spots1 spots2 0 (zeros n n, Fin 0))"
  assumes "spots1 \<noteq> []" and "spots2 \<noteq> []"
  shows "set (concat m1) = insert (Fin 0) (set (pairwise_costs cfg spots1 spots2))"
proof (intro set_eqI iffI)
  fix x assume "x \<in> set (concat m1)"
  then obtain k l where kl: "k < length m1" "l < length (m1 ! k)" "x = m1 ! k ! l"
    unfolding in_set_concat_nth by blast
  then have "k < n" "l < n"
    using filled_matrix(1,2) [where cfg = cfg and ?spots1.0 = spots1 and ?spots2.0 = spots2] by (auto simp: m1_def n_def)
  then have xe: "x = (if k < length spots1 \<and> l < length spots2
                       then link_cost cfg (spots1 ! k) (spots2 ! l) else Fin 0)"
    using filled_matrix(3) [where cfg = cfg and ?spots1.0 = spots1 and ?spots2.0 = spots2 and k = k and l = l] kl(3) by (simp add: m1_def n_def)
  show "x \<in> insert (Fin 0) (set (pairwise_costs cfg spots1 spots2))"
  proof (cases "k < length spots1 \<and> l < length spots2")
    case True
    then have "spots1 ! k \<in> set spots1" "spots2 ! l \<in> set spots2" by simp_all
    then have "link_cost cfg (spots1 ! k) (spots2 ! l) \<in> set (pairwise_costs cfg spots1 spots2)"
      unfolding set_pairwise_costs by blast
    then show ?thesis using True xe by simp
  next
    case False
    then show ?thesis using xe by auto
  qed
next
  fix x assume "x \<in> insert (Fin 0) (set (pairwise_costs cfg spots1 spots2))"
  then consider "x = Fin 0" | k l where "k < length spots1" "l < length spots2"
      "x = link_cost cfg (spots1 ! k) (spots2 ! l)"
    by (auto simp: set_pairwise_costs in_set_conv_nth)
  then show "x \<in> set (concat m1)"
  proof cases
    case 1
    have "length spots1 < n" "length spots2 < n" using assms(3,4) by (simp_all add: n_def)
    then have "m1 ! length spots1 ! length spots2 = Fin 0" "length spots1 < length m1"
        "length spots2 < length (m1 ! length spots1)"
      using filled_matrix(1) [where cfg = cfg and ?spots1.0 = spots1 and ?spots2.0 = spots2] filled_matrix(2) [where cfg = cfg and ?spots1.0 = spots1 and ?spots2.0 = spots2 and k = "length spots1"]
        filled_matrix(3) [where cfg = cfg and ?spots1.0 = spots1 and ?spots2.0 = spots2 and k = "length spots1" and l = "length spots2"]
      by (simp_all add: m1_def n_def)
    then show ?thesis using 1 unfolding in_set_concat_nth by metis
  next
    case 2
    then have "k < n" "l < n" by (simp_all add: n_def)
    then have "m1 ! k ! l = x" "k < length m1" "l < length (m1 ! k)"
      using filled_matrix(1) [where cfg = cfg and ?spots1.0 = spots1 and ?spots2.0 = spots2] filled_matrix(2) [where cfg = cfg and ?spots1.0 = spots1 and ?spots2.0 = spots2 and k = k]
        filled_matrix(3) [where cfg = cfg and ?spots1.0 = spots1 and ?spots2.0 = spots2 and k = k and l = l] 2 by (simp_all add: m1_def n_def)
    then show ?thesis unfolding in_set_concat_nth by metis
  qed
qed

lemma ex_distances:
  "distance_to (example_spot 0 0) (example_spot 1 3) = 3"
  "distance_to (example_spot 0 0) (example_spot 1 500) = 500"
  by (simp_all add: distance_to_same_row example_spot_def)

lemma ex_penalty:
  "link_penalty cfg (example_spot f a) (example_spot g b) = Fin 1"
  by (simp add: link_penalty_def example_spot_def intensity_term_equal)

lemma ex_matrix:
  "update_spots_hereditary_matrix (default_config 2) [example_spot 0 0]
       [example_spot 1 3, example_spot 1 500]
     = Inr (Some [[Fin 3, PInf, Fin (63 / 20)],
                  [Fin (63 / 20), Fin (63 / 20), Fin 3],
                  [Fin (63 / 20), Fin (63 / 20), Fin 3]])"
  by (simp add: update_spots_hereditary_matrix_def Let_def zeros_def link_cost_eq ex_distances
      ex_penalty default_config_def set_block_def py_max_def fgt_def np_max2_def np_min2_def
      eval_nat_numeral upt_rec)

lemma cost_ok_not_nan: "cost_ok c \<Longrightarrow> \<not> isnan c"
  by (cases c) (auto simp: cost_ok_def)

lemma cost_ok_zero: "cost_ok c \<Longrightarrow> \<not> flt (Fin 0) c \<Longrightarrow> c = Fin 0"
  by (cases c) (auto simp: cost_ok_def)

lemma padded_nth:
  assumes "length m1 = n1 + n2" and "\<forall>k<n1 + n2. length (m1 ! k) = n1 + n2"
    and "i < n1 + n2" and "j < n1 + n2"
  shows "length (set_block (set_block (set_block m1 n1 (n1 + n2) 0 n2 a) 0 n1 n2 (n1 + n2) a)
                   n1 (n1 + n2) n2 (n1 + n2) b) = n1 + n2"
    and "length (set_block (set_block (set_block m1 n1 (n1 + n2) 0 n2 a) 0 n1 n2 (n1 + n2) a)
                   n1 (n1 + n2) n2 (n1 + n2) b ! i) = n1 + n2"
    and "set_block (set_block (set_block m1 n1 (n1 + n2) 0 n2 a) 0 n1 n2 (n1 + n2) a)
                   n1 (n1 + n2) n2 (n1 + n2) b ! i ! j =
          (if i < n1 \<and> j < n2 then m1 ! i ! j
           else if n1 \<le> i \<and> n2 \<le> j then b else a)"
  using assms by (auto simp: set_block_length set_block_row_length set_block_nth)

text \<open>
  Where no intensity sum is zero the padding is as specified: for two non-empty lists of
  \<open>N\<close> and \<open>M\<close> spots, with weights that are not negative and intensities whose pairwise
  sums are positive, the cost matrix is built without an exception and is square of size
  \<open>N + M\<close>; its top-left block holds the pairwise costs, its top-right and bottom-left
  blocks hold 1.05 times the maximum finite pairwise cost (0 when no pair has a finite
  cost), and its bottom-right block holds the minimum nonzero pairwise cost (0 when every
  pairwise cost is 0).
\<close>

lemma cost_matrix_padding:
  assumes ne: "spots1 \<noteq> []" "spots2 \<noteq> []"
    and w: "0 \<le> weight_mklp_intensity_factor cfg" "0 \<le> weight_sir_intensity_factor cfg"
    and wf: "\<forall>s1\<in>set spots1. \<forall>s2\<in>set spots2.
               0 < intensity s1 + intensity s2 \<and> 0 < sir_intensity s1 + sir_intensity s2"
  shows "\<exists>m. update_spots_hereditary_matrix cfg spots1 spots2 = Inr (Some m)
     \<and> length m = length spots1 + length spots2
     \<and> (\<forall>i<length spots1 + length spots2. length (m ! i) = length spots1 + length spots2)
     \<and> (\<forall>i<length spots1 + length spots2. \<forall>j<length spots1 + length spots2.
          m ! i ! j =
            (if i < length spots1 \<and> j < length spots2
             then link_cost cfg (spots1 ! i) (spots2 ! j)
             else if length spots1 \<le> i \<and> length spots2 \<le> j
             then min_nonzero_cost (pairwise_costs cfg spots1 spots2)
             else Fin (max_finite_cost (pairwise_costs cfg spots1 spots2) * (105 / 100))))"
proof -
  define n1 where "n1 = length spots1"
  define n2 where "n2 = length spots2"
  define filled where "filled = fill_rows cfg spots1 spots2 0 (zeros (n1 + n2) (n1 + n2), Fin 0)"
  define m1 where "m1 = fst filled"
  define cs where "cs = pairwise_costs cfg spots1 spots2"
  have cases: "(distance_to s1 s2 > mid_body_linking_max_distance cfg \<and> link_cost cfg s1 s2 = PInf)
       \<or> (\<not> distance_to s1 s2 > mid_body_linking_max_distance cfg
           \<and> (\<exists>r. link_cost cfg s1 s2 = Fin r \<and> 0 \<le> r))"
    if "s1 \<in> set spots1" "s2 \<in> set spots2" for s1 s2
    using link_cost_cases [OF w, of s1 s2] wf that by blast
  have far: "\<forall>s1\<in>set spots1. \<forall>s2\<in>set spots2.
             (distance_to s1 s2 > mid_body_linking_max_distance cfg) = (link_cost cfg s1 s2 = PInf)"
    using cases by fastforce
  have ok: "\<forall>c\<in>set cs. cost_ok c"
    using cases by (fastforce simp: cs_def set_pairwise_costs cost_ok_def)
  have mc: "snd filled = Fin (max_finite_cost cs)"
    using fold_max_step_rows [OF far] fold_max_upd_max_finite [OF ok]
    by (simp add: filled_def fill_rows_snd cs_def)
  have len: "length m1 = n1 + n2" and rows: "\<forall>k<n1 + n2. length (m1 ! k) = n1 + n2"
    and ent: "\<forall>k<n1 + n2. \<forall>l<n1 + n2. m1 ! k ! l =
        (if k < n1 \<and> l < n2 then link_cost cfg (spots1 ! k) (spots2 ! l) else Fin 0)"
    using filled_matrix [where cfg = cfg and ?spots1.0 = spots1 and ?spots2.0 = spots2]
    by (simp_all add: m1_def filled_def n1_def n2_def)
  have ents: "set (concat m1) = insert (Fin 0) (set cs)"
    using filled_entries [OF ne, of cfg] by (simp add: m1_def filled_def n1_def n2_def cs_def)
  have nn: "\<forall>c\<in>set (concat m1). \<not> isnan c"
    unfolding ents using ok cost_ok_not_nan by auto
  have "set (concat m1) \<noteq> {}" unfolding ents by simp
  then have nonempty: "concat m1 \<noteq> []" by (metis set_empty)
  obtain largest where lg: "np_max (concat m1) = Inr largest" "largest \<in> set (concat m1)"
      "\<forall>c\<in>set (concat m1). \<not> flt largest c"
    using np_max_greatest [OF nonempty nn] by blast
  have minc: "(if largest = Fin 0 then Inr (Fin 0)
               else np_min (filter (\<lambda>v. v \<noteq> Fin 0) (concat m1))) = Inr (min_nonzero_cost cs)"
  proof (cases "largest = Fin 0")
    case True
    have "\<forall>c\<in>set cs. c = Fin 0"
      using lg(3) ents ok True cost_ok_zero by auto
    then show ?thesis using True by (simp add: min_nonzero_cost_all_zero)
  next
    case False
    define nz where "nz = filter (\<lambda>v. v \<noteq> Fin 0) (concat m1)"
    have snz: "set nz = {c \<in> set cs. c \<noteq> Fin 0}" using ents by (auto simp: nz_def)
    have "largest \<in> set nz" using lg(2) False by (simp add: nz_def)
    then have nzne: "nz \<noteq> []" by auto
    have nznn: "\<forall>c\<in>set nz. \<not> isnan c"
      unfolding snz using ok cost_ok_not_nan by auto
    obtain v where v: "np_min nz = Inr v" "v \<in> set nz" "\<forall>c\<in>set nz. \<not> flt c v"
      using np_min_least [OF nzne nznn] by blast
    have "min_nonzero_cost cs = v"
      using v(2,3) snz by (intro min_nonzero_cost_eq [OF ok]) auto
    then show ?thesis using False v(1) by (simp add: nz_def)
  qed
  define m where "m = set_block (set_block (set_block m1 n1 (n1 + n2) 0 n2
        (Fin (max_finite_cost cs * (105 / 100)))) 0 n1 n2 (n1 + n2)
        (Fin (max_finite_cost cs * (105 / 100)))) n1 (n1 + n2) n2 (n1 + n2) (min_nonzero_cost cs)"
  have unf: "update_spots_hereditary_matrix cfg spots1 spots2 =
      (case np_max (concat m1) of
         Inl e \<Rightarrow> Inl e
       | Inr largest \<Rightarrow>
          (case (if largest = Fin 0 then Inr (Fin 0)
                 else np_min (filter (\<lambda>v. v \<noteq> Fin 0) (concat m1))) of
             Inl e \<Rightarrow> Inl e
           | Inr min_cost \<Rightarrow>
               Inr (Some
                 (set_block
                   (set_block
                     (set_block m1 n1 (n1 + n2) 0 n2 (fmul (snd filled) (Fin (105 / 100))))
                     0 n1 n2 (n1 + n2) (fmul (snd filled) (Fin (105 / 100))))
                   n1 (n1 + n2) n2 (n1 + n2) min_cost))))"
    unfolding update_spots_hereditary_matrix_def m1_def filled_def n1_def n2_def Let_def
    using ne by simp
  have res: "update_spots_hereditary_matrix cfg spots1 spots2 = Inr (Some m)"
    by (simp only: unf lg(1) sum.case minc mc fmul.simps m_def)
  have l1: "length m = n1 + n2"
    unfolding m_def using len by (simp add: set_block_length)
  have l2: "\<forall>i<n1 + n2. length (m ! i) = n1 + n2"
    unfolding m_def using padded_nth(2) [OF len rows] by blast
  have l3: "\<forall>i<n1 + n2. \<forall>j<n1 + n2. m ! i ! j =
            (if i < n1 \<and> j < n2 then link_cost cfg (spots1 ! i) (spots2 ! j)
             else if n1 \<le> i \<and> n2 \<le> j then min_nonzero_cost cs
             else Fin (max_finite_cost cs * (105 / 100)))"
    unfolding m_def using padded_nth(3) [OF len rows] ent by simp
  show ?thesis
    using res l1 l2 l3 unfolding n1_def n2_def cs_def by blast
qed

lemma cost_matrix_padding_example:
  "update_spots_hereditary_matrix (default_config 2) [example_spot 0 0]
       [example_spot 1 3, example_spot 1 500]
     = Inr (Some [[Fin 3, PInf, Fin (63 / 20)],
                  [Fin (63 / 20), Fin (63 / 20), Fin 3],
                  [Fin (63 / 20), Fin (63 / 20), Fin 3]])
   \<and> pairwise_costs (default_config 2) [example_spot 0 0]
       [example_spot 1 3, example_spot 1 500] = [Fin 3, PInf]"
proof -
  have ne: "[example_spot 0 0] \<noteq> []" "[example_spot 1 3, example_spot 1 500] \<noteq> []"
    by simp_all
  have w: "0 \<le> weight_mklp_intensity_factor (default_config 2)"
    "0 \<le> weight_sir_intensity_factor (default_config 2)"
    by (simp_all add: default_config_def)
  have wf: "\<forall>s1\<in>set [example_spot 0 0]. \<forall>s2\<in>set [example_spot 1 3, example_spot 1 500].
      0 < intensity s1 + intensity s2 \<and> 0 < sir_intensity s1 + sir_intensity s2"
    by (simp add: example_spot_def)
  have pc: "pairwise_costs (default_config 2) [example_spot 0 0]
       [example_spot 1 3, example_spot 1 500] = [Fin 3, PInf]"
    by (simp add: pairwise_costs_def link_cost_eq ex_distances ex_penalty default_config_def)
  show ?thesis
    using cost_matrix_padding [OF ne w wf] ex_matrix pc by simp
qed

text \<open>
  C5: one spot against two, the primary intensities being 0 against 0 and 5. The pairwise
  costs are NaN (the penalty is \<^verbatim>\<open>0 / 0\<close>) and 64. The matrix is square of size 3 and its
  top-right and bottom-left blocks hold 1.05 times 64, the maximum finite cost; but its
  bottom-right block holds NaN, and not 64, the minimum nonzero pairwise cost.
\<close>

theorem dark_spots_matrix_has_nan:
  "update_spots_hereditary_matrix (default_config 2) [example_spot_with 0 0 7]
       [example_spot_with 3 0 7, example_spot_with 4 5 7]
     = Inr (Some [[NaN, Fin 64, Fin (336 / 5)],
                  [Fin (336 / 5), Fin (336 / 5), NaN],
                  [Fin (336 / 5), Fin (336 / 5), NaN]])
   \<and> pairwise_costs (default_config 2) [example_spot_with 0 0 7]
       [example_spot_with 3 0 7, example_spot_with 4 5 7] = [NaN, Fin 64]
   \<and> min_nonzero_cost [NaN, Fin 64] = Fin 64
   \<and> max_finite_cost [NaN, Fin 64] = 64"
proof -
  have m: "mid_body_linking_max_distance (default_config 2) = 175"
    by (simp add: default_config_def)
  have p1: "link_penalty (default_config 2) (example_spot_with 0 0 7) (example_spot_with 3 0 7)
             = NaN"
    by (simp add: link_penalty_def example_spot_with_def intensity_term_def fsub_def)
  have p2: "link_penalty (default_config 2) (example_spot_with 0 0 7) (example_spot_with 4 5 7)
             = Fin 16"
    by (simp add: link_penalty_def example_spot_with_def intensity_term_def fsub_def
        default_config_def)
  have c1: "link_cost (default_config 2) (example_spot_with 0 0 7) (example_spot_with 3 0 7) = NaN"
    by (simp add: link_cost_eq dark_distances m p1)
  have c2: "link_cost (default_config 2) (example_spot_with 0 0 7) (example_spot_with 4 5 7)
              = Fin 64"
    by (simp add: link_cost_eq dark_distances m p2)
  have a: "update_spots_hereditary_matrix (default_config 2) [example_spot_with 0 0 7]
       [example_spot_with 3 0 7, example_spot_with 4 5 7]
     = Inr (Some [[NaN, Fin 64, Fin (336 / 5)],
                  [Fin (336 / 5), Fin (336 / 5), NaN],
                  [Fin (336 / 5), Fin (336 / 5), NaN]])"
    by (simp add: update_spots_hereditary_matrix_def Let_def zeros_def c1 c2 dark_distances m
        set_block_def py_max_def fgt_def np_max2_def np_min2_def eval_nat_numeral upt_rec)
  have b: "pairwise_costs (default_config 2) [example_spot_with 0 0 7]
       [example_spot_with 3 0 7, example_spot_with 4 5 7] = [NaN, Fin 64]"
    by (simp add: pairwise_costs_def c1 c2)
  have c: "min_nonzero_cost [NaN, Fin 64] = Fin 64"
    by (simp add: min_nonzero_cost_def finite_costs_def)
  have d: "max_finite_cost [NaN, Fin 64] = 64"
    by (simp add: max_finite_cost_def finite_costs_def)
  from a b c d show ?thesis by simp
qed

end
